theory Spec2Isabelle
  imports Complex_Main "HOL-Library.Char_ord" "HOL-Library.Multiset"
begin

section \<open>Numbers and Python values of screen_v2.py\<close>

text \<open>
  The screener computes on IEEE doubles (Python \<open>float\<close>, numpy \<open>float64\<close>).  A double
  is modelled by its value: not-a-number, the two infinities, or a finite value taken as a
  real number.  Rounding, overflow of finite results and the sign of zero are not modelled;
  everything the script decides by \<open>NaN\<close>, by an infinity or by a comparison is.
  "Undefined" in the script is always \<open>np.nan\<close>.
\<close>

datatype fl = NaN | PInf | NInf | Fin real

fun isnan :: "fl \<Rightarrow> bool" where
  "isnan NaN = True"
| "isnan _ = False"

fun fneg :: "fl \<Rightarrow> fl" where
  "fneg NaN = NaN"
| "fneg PInf = NInf"
| "fneg NInf = PInf"
| "fneg (Fin a) = Fin (- a)"

fun fadd :: "fl \<Rightarrow> fl \<Rightarrow> fl" where
  "fadd NaN _ = NaN"
| "fadd _ NaN = NaN"
| "fadd PInf NInf = NaN"
| "fadd NInf PInf = NaN"
| "fadd PInf _ = PInf"
| "fadd _ PInf = PInf"
| "fadd NInf _ = NInf"
| "fadd _ NInf = NInf"
| "fadd (Fin a) (Fin b) = Fin (a + b)"

definition fsub :: "fl \<Rightarrow> fl \<Rightarrow> fl" where
  "fsub a b = fadd a (fneg b)"

fun fmul :: "fl \<Rightarrow> fl \<Rightarrow> fl" where
  "fmul NaN _ = NaN"
| "fmul _ NaN = NaN"
| "fmul (Fin a) (Fin b) = Fin (a * b)"
| "fmul (Fin a) PInf = (if a = 0 then NaN else if 0 < a then PInf else NInf)"
| "fmul (Fin a) NInf = (if a = 0 then NaN else if 0 < a then NInf else PInf)"
| "fmul PInf (Fin b) = (if b = 0 then NaN else if 0 < b then PInf else NInf)"
| "fmul NInf (Fin b) = (if b = 0 then NaN else if 0 < b then NInf else PInf)"
| "fmul PInf PInf = PInf"
| "fmul NInf NInf = PInf"
| "fmul PInf NInf = NInf"
| "fmul NInf PInf = NInf"

text \<open>
  Division of doubles as the hardware and numpy do it: a zero divisor gives an infinity
  (or \<open>NaN\<close> for \<open>0/0\<close>) and no error.  A zero is taken as \<open>+0\<close>.
\<close>

fun fdiv :: "fl \<Rightarrow> fl \<Rightarrow> fl" where
  "fdiv NaN _ = NaN"
| "fdiv _ NaN = NaN"
| "fdiv (Fin a) (Fin b) =
     (if b = 0 then (if a = 0 then NaN else if 0 < a then PInf else NInf)
      else Fin (a / b))"
| "fdiv (Fin a) _ = Fin 0"
| "fdiv PInf (Fin b) = (if b < 0 then NInf else PInf)"
| "fdiv NInf (Fin b) = (if b < 0 then PInf else NInf)"
| "fdiv _ _ = NaN"

text \<open>Comparisons of doubles: every comparison with \<open>NaN\<close> is false.\<close>

fun fle :: "fl \<Rightarrow> fl \<Rightarrow> bool" where
  "fle NaN _ = False"
| "fle _ NaN = False"
| "fle NInf _ = True"
| "fle _ PInf = True"
| "fle (Fin a) (Fin b) = (a \<le> b)"
| "fle _ _ = False"

fun flt :: "fl \<Rightarrow> fl \<Rightarrow> bool" where
  "flt NaN _ = False"
| "flt _ NaN = False"
| "flt PInf _ = False"
| "flt _ NInf = False"
| "flt (Fin a) (Fin b) = (a < b)"
| "flt _ _ = True"

text \<open>Python truthiness of a number: only zero is false; \<open>NaN\<close> is true.\<close>

fun truthy :: "fl \<Rightarrow> bool" where
  "truthy (Fin a) = (a \<noteq> 0)"
| "truthy _ = True"

text \<open>
  A Python value reaching the helpers: \<open>None\<close>, a number, or any other object.  Of
  another object only what \<open>float()\<close> makes of it matters: \<open>PyOther (Some x)\<close> is an
  object \<open>float()\<close> converts to \<open>x\<close> (the string \<open>'Infinity'\<close>, a numeric string),
  \<open>PyOther None\<close> one on which \<open>float()\<close> raises (any other string, a list).
\<close>

datatype pyval = PyNone | PyNum fl | PyOther "fl option"

datatype exn =
  TypeError | ValueError | KeyError | IndexError | AttributeError | ZeroDivisionError

fun py_float :: "pyval \<Rightarrow> exn + fl" where
  "py_float PyNone = Inl TypeError"
| "py_float (PyNum x) = Inr x"
| "py_float (PyOther None) = Inl ValueError"
| "py_float (PyOther (Some x)) = Inr x"

text \<open>\<open>a / b\<close> on two Python floats raises on a zero divisor.\<close>

definition py_truediv :: "fl \<Rightarrow> fl \<Rightarrow> exn + fl" where
  "py_truediv a b = (if b = Fin 0 then Inl ZeroDivisionError else Inr (fdiv a b))"

subsection \<open>safe_div (lines 37-43)\<close>

text \<open>The body of the \<open>try\<close> block: it may raise.\<close>

definition safe_div_try :: "pyval \<Rightarrow> pyval \<Rightarrow> exn + fl" where
  "safe_div_try a b =
     (case py_float a of
        Inl e \<Rightarrow> Inl e
      | Inr a' \<Rightarrow>
          (case py_float b of
             Inl e \<Rightarrow> Inl e
           | Inr b' \<Rightarrow>
               if b' = Fin 0 \<or> isnan b' then Inr NaN else py_truediv a' b'))"

text \<open>\<open>except Exception: return np.nan\<close>.\<close>

definition safe_div :: "pyval \<Rightarrow> pyval \<Rightarrow> exn + fl" where
  "safe_div a b = (case safe_div_try a b of Inl e \<Rightarrow> Inr NaN | Inr q \<Rightarrow> Inr q)"

text \<open>The value \<open>safe_div\<close> returns, for the callers.\<close>

definition safe_div_val :: "pyval \<Rightarrow> pyval \<Rightarrow> fl" where
  "safe_div_val a b = (case safe_div a b of Inl e \<Rightarrow> NaN | Inr q \<Rightarrow> q)"

text \<open>
  The specification's word for an operand: finite-numeric, a number that is neither
  \<open>NaN\<close> nor an infinity.
\<close>

fun finite_numeric :: "pyval \<Rightarrow> bool" where
  "finite_numeric (PyNum (Fin a)) = True"
| "finite_numeric _ = False"

section \<open>Exceptions and statement tables\<close>

text \<open>A \<open>try\<close> block is a computation that may raise; \<open>except Exception\<close> gives a default.\<close>

definition try_bind :: "exn + 'a \<Rightarrow> ('a \<Rightarrow> exn + 'b) \<Rightarrow> exn + 'b" where
  "try_bind m f = (case m of Inl e \<Rightarrow> Inl e | Inr x \<Rightarrow> f x)"

definition except_default :: "exn + 'a \<Rightarrow> 'a \<Rightarrow> 'a" where
  "except_default m d = (case m of Inl e \<Rightarrow> d | Inr x \<Rightarrow> x)"

text \<open>
  A financial statement of the provider (\<open>tk.income_stmt\<close>, \<open>tk.balance_sheet\<close>,
  \<open>tk.cashflow\<close>): rows named by line item, one value per period, the latest period
  first.  \<open>None\<close> is a statement the provider did not deliver.
\<close>

type_synonym frame = "(string \<times> fl list) list"

text \<open>\<open>df.empty\<close>: no row, or no period.\<close>

definition frame_empty :: "frame \<Rightarrow> bool" where
  "frame_empty fr = (case fr of [] \<Rightarrow> True | (n, xs) # rest \<Rightarrow> xs = [])"

text \<open>\<open>df.loc[name]\<close>: \<open>AttributeError\<close> on \<open>None\<close>, \<open>KeyError\<close> on a missing row.\<close>

definition loc_row :: "frame option \<Rightarrow> string \<Rightarrow> exn + fl list" where
  "loc_row df name =
     (case df of
        None \<Rightarrow> Inl AttributeError
      | Some fr \<Rightarrow> (case map_of fr name of None \<Rightarrow> Inl KeyError | Some xs \<Rightarrow> Inr xs))"

text \<open>
  \<open>df.loc.get(name, default)\<close>.  The script writes it for "the row, or the default
  series when the row is missing", but the \<open>.loc\<close> indexer of a pandas frame has no
  attribute \<open>get\<close>: the expression raises \<open>AttributeError\<close> on every frame, with or
  without the row (and on \<open>None\<close>, which has no \<open>.loc\<close>).
\<close>

definition loc_get :: "frame option \<Rightarrow> string \<Rightarrow> fl list \<Rightarrow> exn + fl list" where
  "loc_get df name dflt = Inl AttributeError"

text \<open>\<open>s.iloc[i]\<close> with Python's negative indices; \<open>IndexError\<close> out of range.\<close>

definition iloc :: "fl list \<Rightarrow> int \<Rightarrow> exn + fl" where
  "iloc xs i =
     (if 0 \<le> i then (if nat i < length xs then Inr (xs ! nat i) else Inl IndexError)
      else if nat (- i) \<le> length xs then Inr (xs ! (length xs - nat (- i)))
      else Inl IndexError)"

definition dropna :: "fl list \<Rightarrow> fl list" where
  "dropna xs = filter (\<lambda>x. \<not> isnan x) xs"

text \<open>\<open>Series.sum()\<close> skips \<open>NaN\<close>; the sum of nothing is 0.\<close>

definition series_sum :: "fl list \<Rightarrow> fl" where
  "series_sum xs = foldl fadd (Fin 0) (dropna xs)"

text \<open>\<open>x or 0\<close> on a number: Python keeps \<open>x\<close> when it is true, and \<open>NaN\<close> is true.\<close>

definition or0 :: "fl \<Rightarrow> fl" where
  "or0 x = (if truthy x then x else Fin 0)"

section \<open>Growth: cagr (lines 45-51) and the revenue fallback (lines 241-254)\<close>

text \<open>
  \<open>b ** e\<close> on numpy doubles for an exponent \<open>0 < e \<le> 1\<close> (here \<open>e = 1/years\<close>): a
  negative base with a fractional exponent gives \<open>NaN\<close>.
\<close>

fun fpow :: "fl \<Rightarrow> real \<Rightarrow> fl" where
  "fpow NaN e = NaN"
| "fpow PInf e = PInf"
| "fpow NInf e = (if e = 1 then NInf else PInf)"
| "fpow (Fin a) e =
     (if 0 < a then Fin (a powr e) else if a = 0 then Fin 0
      else if e = 1 then Fin a else NaN)"

definition cagr :: "fl option \<Rightarrow> fl option \<Rightarrow> int \<Rightarrow> fl" where
  "cagr first last' years =
     (case first of
        None \<Rightarrow> NaN
      | Some f \<Rightarrow>
          (case last' of
             None \<Rightarrow> NaN
           | Some l \<Rightarrow>
               if fle f (Fin 0) \<or> years \<le> 0 then NaN
               else fsub (fpow (fdiv l f) (1 / real_of_int years)) (Fin 1)))"

text \<open>The \<open>try\<close> block of lines 241-252.\<close>

definition growth_rev_try :: "frame option \<Rightarrow> exn + fl" where
  "growth_rev_try income =
     (case income of
        None \<Rightarrow> Inr NaN
      | Some fr \<Rightarrow>
          if frame_empty fr then Inr NaN
          else
            try_bind (loc_row income ''Total Revenue'') (\<lambda>row.
              let rev_hist = dropna (take 4 row) in
              if 2 \<le> length rev_hist then
                let years = int (length rev_hist) - 1 in
                try_bind (iloc rev_hist (- 1 * years)) (\<lambda>first.
                try_bind (iloc rev_hist 0) (\<lambda>last'.
                  Inr (cagr (Some first) (Some last') years)))
              else Inr NaN))"

definition growth_rev :: "frame option \<Rightarrow> fl" where
  "growth_rev income = except_default (growth_rev_try income) NaN"

text \<open>
  What the comment of line 247 and the specification ask for: the earliest against the
  latest available observation, \<open>years = count - 1\<close>.
\<close>

definition growth_rev_spec :: "fl list \<Rightarrow> fl" where
  "growth_rev_spec row =
     (let rev_hist = dropna (take 4 row) in
      if 2 \<le> length rev_hist
      then cagr (Some (last rev_hist)) (Some (hd rev_hist)) (int (length rev_hist) - 1)
      else NaN)"

section \<open>Invested capital (lines 187-216)\<close>

text \<open>
  One \<open>try\<close> block per period \<open>k\<close> (0 the latest, 1 the prior one): the six balance
  sheet items, or six \<open>NaN\<close> when anything in the block raises.  The default series the
  script passes for a missing row is \<open>NaN\<close> for cash and 0 for the other three.
\<close>

definition period_try :: "frame option \<Rightarrow> nat \<Rightarrow> exn + (fl \<times> fl \<times> fl \<times> fl \<times> fl \<times> fl)" where
  "period_try bs k =
     try_bind (try_bind (loc_row bs ''Total Assets'') (\<lambda>r. iloc r (int k))) (\<lambda>ta.
     try_bind (try_bind (loc_row bs ''Total Current Liabilities'') (\<lambda>r. iloc r (int k))) (\<lambda>cl.
     try_bind (try_bind (loc_get bs ''Cash And Cash Equivalents'' (replicate (Suc k) NaN))
                 (\<lambda>r. iloc r (int k))) (\<lambda>cash.
     try_bind (try_bind (loc_get bs ''Short Term Investments'' (replicate (Suc k) (Fin 0)))
                 (\<lambda>r. iloc r (int k))) (\<lambda>sti.
     try_bind (try_bind (loc_get bs ''Goodwill'' (replicate (Suc k) (Fin 0)))
                 (\<lambda>r. iloc r (int k))) (\<lambda>gw.
     try_bind (try_bind (loc_get bs ''Intangible Assets'' (replicate (Suc k) (Fin 0)))
                 (\<lambda>r. iloc r (int k))) (\<lambda>intang.
       Inr (ta, cl, cash, sti, gw, intang)))))))"

definition period_items :: "frame option \<Rightarrow> nat \<Rightarrow> fl \<times> fl \<times> fl \<times> fl \<times> fl \<times> fl" where
  "period_items bs k = except_default (period_try bs k) (NaN, NaN, NaN, NaN, NaN, NaN)"

definition invested_cap :: "fl \<Rightarrow> fl \<Rightarrow> fl \<Rightarrow> fl \<Rightarrow> fl \<Rightarrow> fl \<Rightarrow> fl" where
  "invested_cap ta cl cash sti gw inta =
     (if isnan ta \<and> isnan cl then NaN
      else
        let cashlike = fadd (or0 cash) (or0 sti);
            soft = fadd (or0 gw) (or0 inta)
        in fsub (fsub (fsub ta cl) cashlike) soft)"

definition ic_period :: "frame option \<Rightarrow> nat \<Rightarrow> fl" where
  "ic_period bs k =
     (case period_items bs k of (ta, cl, cash, sti, gw, inta) \<Rightarrow>
        invested_cap ta cl cash sti gw inta)"

section \<open>Free cash flow (lines 159-170) and price to free cash flow (line 294)\<close>

definition quarterly_try :: "frame option \<Rightarrow> exn + (fl \<times> fl)" where
  "quarterly_try qcf =
     try_bind (loc_row qcf ''Total Cash From Operating Activities'') (\<lambda>r1.
     try_bind (loc_row qcf ''Capital Expenditures'') (\<lambda>r2.
       Inr (series_sum (take 4 r1), series_sum (take 4 r2))))"

definition annual_try :: "frame option \<Rightarrow> exn + (fl \<times> fl)" where
  "annual_try cf =
     try_bind (try_bind (loc_row cf ''Total Cash From Operating Activities'') (\<lambda>r. iloc r 0)) (\<lambda>ocf.
     try_bind (try_bind (loc_row cf ''Capital Expenditures'') (\<lambda>r. iloc r 0)) (\<lambda>capex.
       Inr (ocf, capex)))"

definition fcf_operands :: "frame option \<Rightarrow> frame option \<Rightarrow> fl \<times> fl" where
  "fcf_operands qcf cf =
     (case quarterly_try qcf of
        Inr p \<Rightarrow> p
      | Inl e \<Rightarrow> except_default (annual_try cf) (NaN, NaN))"

definition fcf :: "frame option \<Rightarrow> frame option \<Rightarrow> fl" where
  "fcf qcf cf = (case fcf_operands qcf cf of (ocf, capex) \<Rightarrow> fsub (or0 ocf) (or0 capex))"

text \<open>
  A numeric field of \<open>tk.info\<close>: \<open>None\<close> when the key is missing or null, else a number.
\<close>

fun of_info :: "fl option \<Rightarrow> pyval" where
  "of_info None = PyNone"
| "of_info (Some x) = PyNum x"

definition p_to_fcf :: "fl option \<Rightarrow> fl \<Rightarrow> fl" where
  "p_to_fcf mcap fcf_ttm =
     (if \<not> isnan fcf_ttm \<and> flt (Fin 0) fcf_ttm
      then safe_div_val (of_info mcap) (PyNum fcf_ttm) else NaN)"

section \<open>The ten-year yield (lines 97-112)\<close>

text \<open>
  The provider: for a symbol, the closing prices of the last month, or the exception the
  download raises.  Each call is logged, so that a run shows which symbols were asked for.
\<close>

type_synonym provider = "string \<Rightarrow> exn + fl list"

definition get_macro_proxy ::
    "provider \<Rightarrow> string \<Rightarrow> pyval \<Rightarrow> string list \<Rightarrow> pyval \<times> string list" where
  "get_macro_proxy yf ticker fallback calls =
     ((case yf ticker of
         Inl e \<Rightarrow> fallback
       | Inr px \<Rightarrow> if px = [] then fallback else PyNum (last px)),
      calls @ [ticker])"

text \<open>\<open>macro_ovr\<close> is the JSON object of macro_overrides.json (empty when absent).\<close>

definition dict_get :: "(string \<rightharpoonup> pyval) \<Rightarrow> string \<Rightarrow> pyval \<Rightarrow> pyval" where
  "dict_get d k dflt = (case d k of None \<Rightarrow> dflt | Some v \<Rightarrow> v)"

definition ten_year :: "(string \<rightharpoonup> pyval) \<Rightarrow> provider \<Rightarrow> pyval \<times> string list" where
  "ten_year macro_ovr yf =
     (case dict_get macro_ovr ''ten_year_yield'' PyNone of
        PyNone \<Rightarrow>
          (case get_macro_proxy yf ''^TNX'' PyNone [] of
             (tnx, calls) \<Rightarrow>
               ((case tnx of
                   PyNone \<Rightarrow> PyNum NaN
                 | PyNum x \<Rightarrow> PyNum (except_default (py_truediv x (Fin 100)) NaN)
                 | PyOther v \<Rightarrow> PyNum NaN),
                calls))
      | v \<Rightarrow> (v, []))"

section \<open>Lynch metrics: growth proxy, PEG and PEGY (lines 132-135, 239, 256-283)\<close>

text \<open>The numeric fields of \<open>tk.info\<close> the metrics read.\<close>

record info =
  currentPrice :: "fl option"
  regularMarketPrice :: "fl option"
  marketCap :: "fl option"
  trailingPE :: "fl option"
  forwardPE :: "fl option"
  dividendYield :: "fl option"
  earningsGrowth :: "fl option"
  trailingEps :: "fl option"

text \<open>Truthiness, \<open>a or b\<close> and \<open>pd.isna\<close> on a field that may be \<open>None\<close>.\<close>

definition truthy_opt :: "fl option \<Rightarrow> bool" where
  "truthy_opt v = (case v of None \<Rightarrow> False | Some x \<Rightarrow> truthy x)"

definition py_or :: "fl option \<Rightarrow> fl option \<Rightarrow> fl option" where
  "py_or a b = (if truthy_opt a then a else b)"

definition isna :: "fl option \<Rightarrow> bool" where
  "isna v = (case v of None \<Rightarrow> True | Some x \<Rightarrow> isnan x)"

text \<open>Lines 239 and 256-257: the analyst estimate, else the revenue growth.\<close>

definition growth_of :: "info \<Rightarrow> fl \<Rightarrow> fl option" where
  "growth_of i g_rev = (if isna (earningsGrowth i) then Some g_rev else earningsGrowth i)"

text \<open>Lines 266-268: the growth proxy \<open>g\<close>.\<close>

definition growth_proxy :: "fl option \<Rightarrow> fl" where
  "growth_proxy growth =
     (case growth of
        None \<Rightarrow> NaN
      | Some x \<Rightarrow> if isnan x then NaN else if fle x (Fin 0) then NaN else x)"

text \<open>Lines 132, 134 and 260-263: the effective P/E.\<close>

definition pe_eff :: "info \<Rightarrow> fl option" where
  "pe_eff i =
     (let price = py_or (currentPrice i) (regularMarketPrice i);
          pe = py_or (trailingPE i) (forwardPE i)
      in if isna pe \<and> truthy_opt (trailingEps i)
         then Some (safe_div_val (of_info price) (of_info (trailingEps i)))
         else pe)"

text \<open>
  Lines 270-276.  The divisions are plain \<open>/\<close>, outside any \<open>try\<close>: an exception would
  end the run, so the result says whether one is raised.
\<close>

definition PEG :: "fl option \<Rightarrow> fl \<Rightarrow> exn + fl" where
  "PEG pe g =
     (case pe of
        None \<Rightarrow> Inr NaN
      | Some p \<Rightarrow>
          if truthy p \<and> truthy g then
            (if flt g (Fin 1) then py_truediv p (fmul g (Fin 100)) else py_truediv p g)
          else Inr NaN)"

text \<open>Line 278.\<close>

definition div_pct :: "fl option \<Rightarrow> fl option" where
  "div_pct div_y =
     (case div_y of
        None \<Rightarrow> None
      | Some d \<Rightarrow> if truthy d \<and> flt d (Fin 1) then Some (fmul (or0 d) (Fin 100)) else div_y)"

text \<open>Lines 279-283; \<open>None\<close> is the Python \<open>None\<close> the script leaves in \<open>PEGY\<close>.\<close>

definition PEGY :: "fl option \<Rightarrow> fl \<Rightarrow> fl option \<Rightarrow> fl option" where
  "PEGY pe g div_y =
     (if \<not> isna pe \<and> \<not> isnan g then
        let denom = (if truthy g \<and> flt g (Fin 1) then fmul g (Fin 100) else g);
            denom' = fadd denom (case div_pct div_y of None \<Rightarrow> Fin 0 | Some d \<Rightarrow> or0 d)
        in Some (safe_div_val (of_info pe) (PyNum denom'))
      else None)"

text \<open>The three metrics of one ticker, from its \<open>info\<close> and its income statement.\<close>

definition ticker_growth_proxy :: "info \<Rightarrow> frame option \<Rightarrow> fl" where
  "ticker_growth_proxy i income = growth_proxy (growth_of i (growth_rev income))"

definition ticker_PEG :: "info \<Rightarrow> frame option \<Rightarrow> exn + fl" where
  "ticker_PEG i income = PEG (pe_eff i) (ticker_growth_proxy i income)"

definition ticker_PEGY :: "info \<Rightarrow> frame option \<Rightarrow> fl option" where
  "ticker_PEGY i income = PEGY (pe_eff i) (ticker_growth_proxy i income) (dividendYield i)"

section \<open>The score table (lines 333-409)\<close>

text \<open>
  One row of the data frame \<open>df\<close>: the columns the scores read, as doubles (a \<open>None\<close> in
  a numeric column is \<open>NaN\<close> there).
\<close>

record row =
  col_ticker :: string
  col_roic_est :: fl
  col_fcf_margin :: fl
  col_fcf_yield :: fl
  col_ebit_margin :: fl
  col_net_debt :: fl
  col_interest_coverage :: fl
  col_PEG :: fl
  col_PEGY :: fl
  col_growth_proxy :: fl
  col_cash_to_mcap :: fl
  col_p_to_fcf :: fl
  col_shares_chg_3y :: fl
  col_macro_sensitivity :: fl
  col_weekly_ac :: fl
  col_vol_clust :: fl
  col_ret_pred :: fl
  col_patent_count :: fl
  col_forward_citations :: fl
  col_rd_to_sales :: fl

text \<open>Arithmetic on a column (a pandas Series) is elementwise.\<close>

definition smul :: "real \<Rightarrow> fl list \<Rightarrow> fl list" where
  "smul c s = map (fmul (Fin c)) s"

definition sneg :: "fl list \<Rightarrow> fl list" where
  "sneg s = map fneg s"

definition sadd :: "fl list \<Rightarrow> fl list \<Rightarrow> fl list" where
  "sadd s t = map2 fadd s t"

definition sinv :: "fl list \<Rightarrow> fl list" where
  "sinv s = map (\<lambda>x. fdiv (Fin 1) (fadd x (Fin (1 / 10 ^ 9)))) s"

fun fsqrt :: "fl \<Rightarrow> fl" where
  "fsqrt NaN = NaN"
| "fsqrt PInf = PInf"
| "fsqrt NInf = NaN"
| "fsqrt (Fin a) = (if a < 0 then NaN else Fin (sqrt a))"

definition fmin :: "fl \<Rightarrow> fl \<Rightarrow> fl" where
  "fmin a b = (if fle a b then a else b)"

definition fmax :: "fl \<Rightarrow> fl \<Rightarrow> fl" where
  "fmax a b = (if fle a b then b else a)"

text \<open>The numpy reductions that skip \<open>NaN\<close>; on a column with no number they give \<open>NaN\<close>.\<close>

definition nanmean :: "fl list \<Rightarrow> fl" where
  "nanmean s =
     (let d = dropna s
      in if d = [] then NaN else fdiv (foldl fadd (Fin 0) d) (Fin (real (length d))))"

definition nanstd :: "fl list \<Rightarrow> fl" where
  "nanstd s =
     (let d = dropna s
      in if d = [] then NaN
         else
           let avg = fdiv (foldl fadd (Fin 0) d) (Fin (real (length d)));
               sqr = map (\<lambda>x. fmul (fsub x avg) (fsub x avg)) d
           in fsqrt (fdiv (foldl fadd (Fin 0) sqr) (Fin (real (length d)))))"

definition nanmin :: "fl list \<Rightarrow> fl" where
  "nanmin s = (case dropna s of [] \<Rightarrow> NaN | y # ys \<Rightarrow> foldl fmin y ys)"

definition nanmax :: "fl list \<Rightarrow> fl" where
  "nanmax s = (case dropna s of [] \<Rightarrow> NaN | y # ys \<Rightarrow> foldl fmax y ys)"

text \<open>Lines 337-342.\<close>

definition zscore :: "fl list \<Rightarrow> fl list" where
  "zscore s =
     map (\<lambda>x. fdiv (fsub x (nanmean s)) (fadd (nanstd s) (Fin (1 / 10 ^ 9)))) s"

text \<open>
  On exact numbers \<open>pos_clip\<close> never exceeds 100.  On doubles it can, where the range
  of the column is so large that \<open>1e-9\<close> is lost in the denominator
  (\<open>[0.0, 835451532923.4495]\<close> gives \<open>100.00000000000001\<close>) or the product with 100
  overflows; the columns the script rescales are weighted sums of z-scores, whose
  magnitude is bounded (see \<open>clip_margin\<close> below).
\<close>

definition pos_clip :: "fl list \<Rightarrow> fl list" where
  "pos_clip s =
     map (\<lambda>x. fdiv (fmul (Fin 100) (fsub x (nanmin s)))
                 (fadd (fsub (nanmax s) (nanmin s)) (Fin (1 / 10 ^ 9)))) s"

text \<open>Lines 345-390: the five weighted sums and their rescaling.\<close>

definition buffett_raw :: "row list \<Rightarrow> fl list" where
  "buffett_raw df =
     sadd (sadd (sadd (sadd (sadd
       (smul 0.35 (zscore (map col_roic_est df)))
       (smul 0.20 (zscore (map col_fcf_margin df))))
       (smul 0.15 (zscore (map col_fcf_yield df))))
       (smul 0.15 (zscore (map col_ebit_margin df))))
       (smul 0.10 (sneg (zscore (map col_net_debt df)))))
       (smul 0.05 (zscore (map col_interest_coverage df)))"

definition lynch_raw :: "row list \<Rightarrow> fl list" where
  "lynch_raw df =
     sadd (sadd (sadd
       (smul 0.35 (zscore (sinv (map col_PEG df))))
       (smul 0.25 (zscore (sinv (map col_PEGY df)))))
       (smul 0.25 (zscore (map col_growth_proxy df))))
       (smul 0.15 (sneg (zscore (map col_net_debt df))))"

definition icahn_raw :: "row list \<Rightarrow> fl list" where
  "icahn_raw df =
     sadd (sadd (sadd
       (smul 0.35 (zscore (map col_cash_to_mcap df)))
       (smul 0.35 (zscore (sinv (map col_p_to_fcf df)))))
       (smul 0.20 (sneg (zscore (map col_shares_chg_3y df)))))
       (smul 0.10 (sneg (zscore (map col_net_debt df))))"

definition soros_raw :: "row list \<Rightarrow> fl list" where
  "soros_raw df =
     sadd (sadd
       (smul 0.50 (zscore (sinv (map col_p_to_fcf df))))
       (smul 0.30 (zscore (map col_macro_sensitivity df))))
       (smul 0.20 (zscore (map col_interest_coverage df)))"

definition simons_raw :: "row list \<Rightarrow> fl list" where
  "simons_raw df =
     sadd (sadd
       (smul 0.34 (zscore (map col_weekly_ac df)))
       (smul 0.33 (zscore (map col_vol_clust df))))
       (smul 0.33 (zscore (map col_ret_pred df)))"

text \<open>Lines 393-400: the IP boost, \<open>np.where(np.isnan(ip_z), score, score*0.9 + ...*0.1)\<close>.\<close>

definition ip_z :: "row list \<Rightarrow> fl list" where
  "ip_z df =
     sadd (sadd
       (smul 0.50 (zscore (map col_patent_count df)))
       (smul 0.30 (zscore (map col_forward_citations df))))
       (smul 0.20 (zscore (map col_rd_to_sales df)))"

definition ip_blend :: "fl list \<Rightarrow> fl list \<Rightarrow> fl list" where
  "ip_blend ipz score =
     map (\<lambda>(c, sc, p). if isnan c then sc else fadd (fmul sc (Fin 0.9)) (fmul p (Fin 0.1)))
       (zip ipz (zip score (pos_clip ipz)))"

definition buffett_score :: "row list \<Rightarrow> fl list" where
  "buffett_score df = ip_blend (ip_z df) (pos_clip (buffett_raw df))"

definition lynch_score :: "row list \<Rightarrow> fl list" where
  "lynch_score df = pos_clip (lynch_raw df)"

definition icahn_score :: "row list \<Rightarrow> fl list" where
  "icahn_score df = pos_clip (icahn_raw df)"

definition soros_score :: "row list \<Rightarrow> fl list" where
  "soros_score df = pos_clip (soros_raw df)"

definition simons_score :: "row list \<Rightarrow> fl list" where
  "simons_score df = ip_blend (ip_z df) (pos_clip (simons_raw df))"

text \<open>Lines 403-409.\<close>

definition meta_score :: "row list \<Rightarrow> fl list" where
  "meta_score df =
     sadd (sadd (sadd (sadd
       (smul 0.25 (buffett_score df))
       (smul 0.20 (lynch_score df)))
       (smul 0.20 (icahn_score df)))
       (smul 0.15 (soros_score df)))
       (smul 0.20 (simons_score df))"

text \<open>A value is a score when it is undefined or lies in the closed interval from 0 to 100.\<close>

fun score_range :: "fl \<Rightarrow> bool" where
  "score_range NaN = True"
| "score_range (Fin v) = (0 \<le> v \<and> v \<le> 100)"
| "score_range _ = False"

text \<open>
  Magnitudes.  A value is bounded by \<open>B\<close> when it is undefined or a number of absolute value
  at most \<open>B\<close>.  A score is below 100 by the margin \<open>m\<close> when it is undefined or lies
  between 0 and \<open>100 - m\<close>.  \<open>clip_margin B\<close> is the distance from 100 that the
  stabilising constant \<open>1e-9\<close> in the denominator of \<open>pos_clip\<close> leaves on a column
  whose numbers are bounded by \<open>B\<close>.
\<close>

fun bounded_by :: "real \<Rightarrow> fl \<Rightarrow> bool" where
  "bounded_by B NaN = True"
| "bounded_by B (Fin v) = (\<bar>v\<bar> \<le> B)"
| "bounded_by B _ = False"

fun score_below :: "real \<Rightarrow> fl \<Rightarrow> bool" where
  "score_below m NaN = True"
| "score_below m (Fin v) = (0 \<le> v \<and> v \<le> 100 - m)"
| "score_below m _ = False"

definition clip_margin :: "real \<Rightarrow> real" where
  "clip_margin B = 100 * (1 / 10 ^ 9) / (2 * B + 1 / 10 ^ 9)"

section \<open>The rows of the table (lines 123-333) and the sorted output (lines 427-429)\<close>

text \<open>
  One ticker of the universe as the loop body sees it: its symbol, its market
  capitalisation, its balance sheet, and the other columns of its row as the rest of the
  loop body computes them.
\<close>

record ticker_data =
  td_ticker :: string
  td_market_cap :: "fl option"
  td_balance_sheet :: "frame option"
  td_row :: row

text \<open>
  Line 293, which stands outside every \<open>try\<close>: with a balance sheet at hand it calls
  \<open>bs_.loc.get\<close>, and the exception ends the run.
\<close>

definition cash_to_mcap :: "frame option \<Rightarrow> fl option \<Rightarrow> exn + fl" where
  "cash_to_mcap bs mcap =
     try_bind
       (case bs of
          None \<Rightarrow> Inr NaN
        | Some fr \<Rightarrow>
            try_bind (loc_get bs ''Cash And Cash Equivalents'' [NaN]) (\<lambda>r. iloc r 0))
       (\<lambda>cash. Inr (safe_div_val (PyNum cash) (of_info mcap)))"

definition ticker_row :: "ticker_data \<Rightarrow> exn + row" where
  "ticker_row t =
     try_bind (cash_to_mcap (td_balance_sheet t) (td_market_cap t)) (\<lambda>c.
       Inr ((td_row t)\<lparr>col_ticker := td_ticker t, col_cash_to_mcap := c\<rparr>))"

text \<open>The loop over the universe: one row per ticker, in order; an exception ends it.\<close>

fun collect_rows :: "ticker_data list \<Rightarrow> exn + row list" where
  "collect_rows [] = Inr []"
| "collect_rows (t # ts) =
     try_bind (ticker_row t) (\<lambda>r.
     try_bind (collect_rows ts) (\<lambda>rs. Inr (r # rs)))"

text \<open>
  \<open>sort_values("meta_score", ascending=False)\<close> with the defaults \<open>kind="quicksort"\<close>
  and \<open>na_position="last"\<close>, as pandas computes it: the rows with a number are reversed,
  sorted ascending by numpy's \<open>argsort\<close> and reversed again; the rows with \<open>NaN\<close> follow
  in the order of the table.  numpy's quicksort is not stable, so \<open>argsort\<close> is a
  parameter here: a function from the keys to a list of positions.
\<close>

definition sort_values :: "(fl list \<Rightarrow> nat list) \<Rightarrow> ('a \<Rightarrow> fl) \<Rightarrow> 'a list \<Rightarrow> 'a list" where
  "sort_values argsort key rows =
     (let non_nans = rev (filter (\<lambda>r. \<not> isnan (key r)) rows);
          nans = filter (\<lambda>r. isnan (key r)) rows;
          indexer = rev (map (\<lambda>i. non_nans ! i) (argsort (map key non_nans)))
      in indexer @ nans)"




text \<open>
  The output table: each ticker with its meta-score, sorted.  On an empty table the first
  column access of line 346 raises \<open>KeyError\<close>.
\<close>

definition screen_results ::
    "(fl list \<Rightarrow> nat list) \<Rightarrow> row list \<Rightarrow> exn + (string \<times> fl) list" where
  "screen_results argsort df =
     (if df = [] then Inl KeyError
      else Inr (sort_values argsort snd (zip (map col_ticker df) (meta_score df))))"

text \<open>The run, from the universe to the output table.\<close>

definition run ::
    "(fl list \<Rightarrow> nat list) \<Rightarrow> ticker_data list \<Rightarrow> exn + (string \<times> fl) list" where
  "run argsort universe = try_bind (collect_rows universe) (screen_results argsort)"


text \<open>The metrics each weighted sum reads from a row, in the order of the source.\<close>

definition buffett_inputs :: "row \<Rightarrow> fl list" where
  "buffett_inputs r =
     [col_roic_est r, col_fcf_margin r, col_fcf_yield r, col_ebit_margin r, col_net_debt r,
      col_interest_coverage r]"

definition lynch_inputs :: "row \<Rightarrow> fl list" where
  "lynch_inputs r = [col_PEG r, col_PEGY r, col_growth_proxy r, col_net_debt r]"

definition icahn_inputs :: "row \<Rightarrow> fl list" where
  "icahn_inputs r = [col_cash_to_mcap r, col_p_to_fcf r, col_shares_chg_3y r, col_net_debt r]"

definition soros_inputs :: "row \<Rightarrow> fl list" where
  "soros_inputs r = [col_p_to_fcf r, col_macro_sensitivity r, col_interest_coverage r]"

definition simons_inputs :: "row \<Rightarrow> fl list" where
  "simons_inputs r = [col_weekly_ac r, col_vol_clust r, col_ret_pred r]"

text \<open>A row whose metrics all have the same value, for examples.\<close>

definition uniform_row :: "string \<Rightarrow> fl \<Rightarrow> row" where
  "uniform_row t v =
     \<lparr>col_ticker = t, col_roic_est = v, col_fcf_margin = v, col_fcf_yield = v,
      col_ebit_margin = v, col_net_debt = v, col_interest_coverage = v, col_PEG = v,
      col_PEGY = v, col_growth_proxy = v, col_cash_to_mcap = v, col_p_to_fcf = v,
      col_shares_chg_3y = v, col_macro_sensitivity = v, col_weekly_ac = v, col_vol_clust = v,
      col_ret_pred = v, col_patent_count = v, col_forward_citations = v, col_rd_to_sales = v\<rparr>"

section \<open>Theorems\<close>

subsection \<open>safe_div\<close>

text \<open>
  C6.  \<open>safe_div\<close> never raises.  It returns \<open>NaN\<close> when an operand cannot be converted
  to a float, when an operand is \<open>NaN\<close> and when \<open>b\<close> is zero; otherwise it returns the
  quotient of the two doubles, which for two finite numbers is \<open>a/b\<close>.  An infinite
  operand is not undefined: the quotient then follows the rules of \<open>fdiv\<close> (an infinite
  \<open>a\<close> over a finite \<open>b\<close> is an infinity, a finite \<open>a\<close> over an infinite \<open>b\<close> is 0).
\<close>

theorem safe_div_cases:
  "(\<exists>q. safe_div a b = Inr q)
   \<and> ((\<exists>e. py_float a = Inl e) \<or> (\<exists>e. py_float b = Inl e) \<or> py_float a = Inr NaN
        \<or> py_float b = Inr NaN \<or> py_float b = Inr (Fin 0) \<longrightarrow> safe_div a b = Inr NaN)
   \<and> (\<forall>x y. py_float a = Inr x \<and> py_float b = Inr y \<and> y \<noteq> Fin 0 \<and> \<not> isnan y
        \<longrightarrow> safe_div a b = Inr (fdiv x y))
   \<and> (\<forall>x y. py_float a = Inr (Fin x) \<and> py_float b = Inr (Fin y) \<and> y \<noteq> 0
        \<longrightarrow> safe_div a b = Inr (Fin (x / y)))"
  by (auto simp: safe_div_def safe_div_try_def py_truediv_def split: sum.splits)

theorem safe_div_cases_witness:
  "safe_div (PyNum (Fin 6)) (PyNum (Fin 3)) = Inr (Fin 2)
   \<and> safe_div PyNone (PyNum (Fin 3)) = Inr NaN
   \<and> safe_div (PyNum (Fin 6)) (PyNum (Fin 0)) = Inr NaN
   \<and> safe_div (PyNum NInf) (PyNum (Fin 2)) = Inr NInf
   \<and> safe_div (PyNum (Fin 6)) (PyOther (Some PInf)) = Inr (Fin 0)"
  using safe_div_cases [of "PyNum (Fin 6)" "PyNum (Fin 3)"]
    safe_div_cases [of PyNone "PyNum (Fin 3)"]
    safe_div_cases [of "PyNum (Fin 6)" "PyNum (Fin 0)"]
    safe_div_cases [of "PyNum NInf" "PyNum (Fin 2)"]
    safe_div_cases [of "PyNum (Fin 6)" "PyOther (Some PInf)"]
  by simp

text \<open>
  C6 as stated fails: the operand \<open>inf\<close> is not finite-numeric, yet
  \<open>safe_div(inf, 1)\<close> is \<open>inf\<close> and not undefined.
\<close>

theorem safe_div_infinite_counterexample:
  "\<not> finite_numeric (PyNum PInf)
   \<and> safe_div (PyNum PInf) (PyNum (Fin 1)) = Inr PInf
   \<and> \<not> isnan PInf"
  by (simp add: safe_div_def safe_div_try_def py_truediv_def)

subsection \<open>Price to free cash flow\<close>

text \<open>
  C10.  \<open>p_to_fcf\<close> is undefined whenever the free cash flow is undefined or not strictly
  positive; only for a free cash flow above zero is it \<open>safe_div(mcap, fcf)\<close>, the market
  capitalisation divided by the free cash flow.
\<close>

theorem p_to_fcf_guard:
  "(isnan f \<or> \<not> flt (Fin 0) f \<longrightarrow> p_to_fcf mcap f = NaN)
   \<and> (\<not> isnan f \<and> flt (Fin 0) f \<longrightarrow>
        p_to_fcf mcap f = safe_div_val (of_info mcap) (PyNum f))
   \<and> (\<forall>m v. mcap = Some (Fin m) \<and> f = Fin v \<and> 0 < v \<longrightarrow> p_to_fcf mcap f = Fin (m / v))"
  by (auto simp: p_to_fcf_def safe_div_val_def safe_div_def safe_div_try_def py_truediv_def)

theorem p_to_fcf_guard_witness:
  "p_to_fcf (Some (Fin 1000)) (Fin 50) = Fin 20
   \<and> p_to_fcf (Some (Fin 1000)) (Fin (- 50)) = NaN
   \<and> p_to_fcf (Some (Fin 1000)) (Fin 0) = NaN
   \<and> p_to_fcf (Some (Fin 1000)) NaN = NaN"
  using p_to_fcf_guard [of "Fin 50" "Some (Fin 1000)"]
    p_to_fcf_guard [of "Fin (- 50)" "Some (Fin 1000)"]
    p_to_fcf_guard [of "Fin 0" "Some (Fin 1000)"]
    p_to_fcf_guard [of NaN "Some (Fin 1000)"]
  by auto

subsection \<open>The ten-year yield\<close>

text \<open>
  C7.  With an override value in the configuration the ten-year yield is that value and
  the provider is not called at all, whatever it would answer.  Without one (no key, or a
  null) the provider is asked for \<open>^TNX\<close> once and the yield is its last close divided by
  100; when the provider raises or has no prices the yield is undefined.
\<close>

theorem ten_year_resolution:
  "(\<forall>v. macro_ovr ''ten_year_yield'' = Some v \<and> v \<noteq> PyNone \<longrightarrow> ten_year macro_ovr yf = (v, []))
   \<and> (macro_ovr ''ten_year_yield'' = None \<or> macro_ovr ''ten_year_yield'' = Some PyNone \<longrightarrow>
        (\<forall>px. yf ''^TNX'' = Inr px \<and> px \<noteq> [] \<longrightarrow>
           ten_year macro_ovr yf = (PyNum (fdiv (last px) (Fin 100)), [''^TNX'']))
        \<and> (\<forall>px x. yf ''^TNX'' = Inr px \<and> px \<noteq> [] \<and> last px = Fin x \<longrightarrow>
           ten_year macro_ovr yf = (PyNum (Fin (x / 100)), [''^TNX'']))
        \<and> ((\<exists>e. yf ''^TNX'' = Inl e) \<or> yf ''^TNX'' = Inr [] \<longrightarrow>
           ten_year macro_ovr yf = (PyNum NaN, [''^TNX''])))"
  by (auto simp: ten_year_def dict_get_def get_macro_proxy_def py_truediv_def except_default_def
      split: pyval.splits)

theorem ten_year_resolution_witness:
  "ten_year [''ten_year_yield'' \<mapsto> PyNum (Fin 0.04)] (\<lambda>t. Inr [Fin 4.5]) = (PyNum (Fin 0.04), [])
   \<and> ten_year Map.empty (\<lambda>t. Inr [Fin 4.1, Fin 4.2]) = (PyNum (Fin 0.042), [''^TNX''])
   \<and> ten_year [''ten_year_yield'' \<mapsto> PyNone] (\<lambda>t. Inr [Fin 4.2]) = (PyNum (Fin 0.042), [''^TNX''])
   \<and> ten_year Map.empty (\<lambda>t. Inl ValueError) = (PyNum NaN, [''^TNX''])
   \<and> ten_year Map.empty (\<lambda>t. Inr []) = (PyNum NaN, [''^TNX''])"
  using ten_year_resolution [of "[''ten_year_yield'' \<mapsto> PyNum (Fin 0.04)]" "\<lambda>t. Inr [Fin 4.5]"]
    ten_year_resolution [of Map.empty "\<lambda>t. Inr [Fin 4.1, Fin 4.2]"]
    ten_year_resolution [of "[''ten_year_yield'' \<mapsto> PyNone]" "\<lambda>t. Inr [Fin 4.2]"]
    ten_year_resolution [of Map.empty "\<lambda>t. Inl ValueError"]
    ten_year_resolution [of Map.empty "\<lambda>t. Inr []"]
  by simp

subsection \<open>Growth, invested capital and free cash flow at the failing inputs\<close>

text \<open>
  C2.  With three annual revenues 400, 200, 100 (latest first) the script takes
  \<open>rev_hist.iloc[-years]\<close>, the second observation, as the start: its growth is
  \<open>(400/200)^(1/2) - 1 = sqrt 2 - 1\<close>, where earliest against latest over two years gives
  \<open>(400/100)^(1/2) - 1 = 1\<close>.  With two observations both agree, and a growth of zero or
  less becomes undefined.
\<close>

theorem growth_rev_second_observation:
  "growth_rev (Some [(''Total Revenue'', [Fin 400, Fin 200, Fin 100])]) = Fin (sqrt 2 - 1)
   \<and> growth_rev_spec [Fin 400, Fin 200, Fin 100] = Fin 1
   \<and> growth_rev (Some [(''Total Revenue'', [Fin 400, Fin 100])]) = Fin 3
   \<and> growth_rev_spec [Fin 400, Fin 100] = Fin 3
   \<and> growth_proxy (Some (Fin (- 0.05))) = NaN"
  by (simp add: growth_rev_def growth_rev_try_def growth_rev_spec_def frame_empty_def
      loc_row_def try_bind_def except_default_def dropna_def iloc_def cagr_def fsub_def
      powr_half_sqrt growth_proxy_def Let_def)

text \<open>
  C3.  A complete balance sheet: total assets 100, current liabilities 30, cash 10,
  short-term investments 5, goodwill 20, intangibles 15.  The formula gives 20; the script
  gives an undefined invested capital for the period, as it does for every balance sheet
  and both periods, because \<open>bs_.loc.get\<close> raises inside the \<open>try\<close> block and the
  handler sets all six items to \<open>NaN\<close>.  The function \<open>invested_cap\<close> itself computes
  the formula on six numbers, and turns a \<open>NaN\<close> cash into an undefined result where
  \<open>cash or 0\<close> was meant to give zero.
\<close>

theorem invested_cap_always_undefined:
  "ic_period (Some [(''Total Assets'', [Fin 100, Fin 90]),
        (''Total Current Liabilities'', [Fin 30, Fin 25]),
        (''Cash And Cash Equivalents'', [Fin 10, Fin 10]),
        (''Short Term Investments'', [Fin 5, Fin 5]),
        (''Goodwill'', [Fin 20, Fin 20]),
        (''Intangible Assets'', [Fin 15, Fin 15])]) 0 = NaN
   \<and> ic_period bs k = NaN
   \<and> invested_cap (Fin 100) (Fin 30) (Fin 10) (Fin 5) (Fin 20) (Fin 15) = Fin 20
   \<and> invested_cap (Fin 100) (Fin 30) NaN (Fin 0) (Fin 0) (Fin 0) = NaN"
proof -
  have e: "\<exists>e. period_try b j = Inl e" for b j
    by (simp add: period_try_def loc_get_def try_bind_def split: sum.splits)
  have "period_items b j = (NaN, NaN, NaN, NaN, NaN, NaN)" for b j
    using e [of b j] by (auto simp: period_items_def except_default_def)
  then have "ic_period b j = NaN" for b j
    by (simp add: ic_period_def invested_cap_def)
  then show ?thesis
    by (simp add: invested_cap_def or0_def fsub_def Let_def)
qed

text \<open>
  C4.  No quarterly statement, and an annual one with an operating cash flow of 500 and no
  capital expenditure row: both operands become \<open>NaN\<close> in the handler, \<open>NaN or 0\<close> is
  \<open>NaN\<close>, and the free cash flow is undefined, not 500.
\<close>

theorem fcf_missing_capex:
  "fcf None (Some [(''Total Cash From Operating Activities'', [Fin 500])]) = NaN
   \<and> fcf None (Some [(''Total Cash From Operating Activities'', [Fin 500]),
        (''Capital Expenditures'', [NaN])]) = NaN
   \<and> fcf None (Some [(''Total Cash From Operating Activities'', [Fin 500]),
        (''Capital Expenditures'', [Fin (- 120)])]) = Fin 620"
  by (simp add: fcf_def fcf_operands_def quarterly_try_def annual_try_def loc_row_def
      try_bind_def except_default_def iloc_def or0_def fsub_def Let_def)

subsection \<open>PEG and PEGY\<close>

lemma growth_proxy_cases: "isnan (growth_proxy gr) \<or> flt (Fin 0) (growth_proxy gr)"
proof (cases gr)
  case None
  then show ?thesis by (simp add: growth_proxy_def)
next
  case (Some x)
  then show ?thesis by (cases x) (auto simp: growth_proxy_def)
qed

lemma growth_proxy_pos: "flt (Fin 0) x \<Longrightarrow> growth_proxy (Some x) = x"
  by (cases x) (auto simp: growth_proxy_def)

lemma growth_proxy_undefined:
  "\<not> (\<exists>x. gr = Some x \<and> flt (Fin 0) x) \<Longrightarrow> growth_proxy gr = NaN"
  using growth_proxy_cases [of gr]
  by (cases gr) (auto simp: growth_proxy_def split: if_splits)

lemma PEG_total: "\<exists>q. PEG pe (growth_proxy gr) = Inr q"
proof (cases "\<exists>x. gr = Some x \<and> flt (Fin 0) x")
  case True
  then obtain x where x: "gr = Some x" "flt (Fin 0) x" by blast
  have "fmul x (Fin 100) \<noteq> Fin 0" "x \<noteq> Fin 0"
    using x(2) by (cases x; auto)+
  then show ?thesis
    using x by (cases pe) (auto simp: PEG_def py_truediv_def growth_proxy_pos)
next
  case False
  then have "growth_proxy gr = NaN" by (rule growth_proxy_undefined)
  then show ?thesis
    by (cases pe) (auto simp: PEG_def py_truediv_def)
qed

lemma PEG_defined:
  assumes "PEG pe (growth_proxy gr) = Inr q" and "\<not> isnan q"
  shows "\<exists>p x. pe = Some p \<and> \<not> isnan p \<and> gr = Some x \<and> flt (Fin 0) x
           \<and> q = (if flt x (Fin 1) then fdiv p (fmul x (Fin 100)) else fdiv p x)"
proof (cases "\<exists>x. gr = Some x \<and> flt (Fin 0) x")
  case True
  then obtain x where x: "gr = Some x" "flt (Fin 0) x" by blast
  have nz: "fmul x (Fin 100) \<noteq> Fin 0" "x \<noteq> Fin 0"
    using x(2) by (cases x; auto)+
  have dp: "fdiv p y = NaN" if "isnan p" for p y
    using that by (cases p) auto
  show ?thesis
    using assms x nz
    by (cases pe) (auto simp: PEG_def py_truediv_def growth_proxy_pos dp split: if_splits)
next
  case False
  then have g: "growth_proxy gr = NaN" by (rule growth_proxy_undefined)
  have dn: "isnan (fdiv p NaN)" for p by (cases p) auto
  show ?thesis
    using assms g dn
    by (cases pe) (auto simp: PEG_def py_truediv_def split: if_splits)
qed

lemma PEG_finite:
  "p \<noteq> 0 \<Longrightarrow> 0 < x \<Longrightarrow>
   PEG (Some (Fin p)) (growth_proxy (Some (Fin x))) =
     Inr (Fin (if x < 1 then p / (x * 100) else p / x))"
  by (simp add: PEG_def growth_proxy_def py_truediv_def)

lemma scenario:
  assumes "pe_eff i = Some (Fin 20)" "ticker_growth_proxy i income = Fin 0.10"
    "dividendYield i = Some (Fin 0.02)"
  shows "ticker_PEG i income = Inr (Fin 2)" "ticker_PEGY i income = Some (Fin (20 / 12))"
  using assms
  by (simp_all add: ticker_PEG_def ticker_PEGY_def PEG_def PEGY_def isna_def py_truediv_def
      div_pct_def or0_def safe_div_val_def safe_div_def safe_div_try_def)

lemma PEGY_undefined: "isna pe \<or> isnan g \<Longrightarrow> PEGY pe g dy = None"
  by (auto simp: PEGY_def)

lemma PEGY_dividend:
  "0 < x \<Longrightarrow> 0 \<le> d \<Longrightarrow>
   PEGY (Some (Fin p)) (Fin x) (Some (Fin d)) =
     Some (Fin (p / ((if x < 1 then x * 100 else x) + (if d < 1 then d * 100 else d))))"
proof -
  assume x: "0 < x" and d: "0 \<le> d"
  have "(if x < 1 then x * 100 else x) + (if d < 1 then d * 100 else d) > 0"
    using x d by (auto intro: add_pos_nonneg)
  then show ?thesis
    using x d
    by (auto simp: PEGY_def isna_def div_pct_def or0_def safe_div_val_def safe_div_def
        safe_div_try_def py_truediv_def)
qed

lemma PEGY_no_dividend:
  "0 < x \<Longrightarrow>
   PEGY (Some (Fin p)) (Fin x) None = Some (Fin (p / (if x < 1 then x * 100 else x)))"
  by (auto simp: PEGY_def isna_def div_pct_def or0_def safe_div_val_def safe_div_def
      safe_div_try_def py_truediv_def)

lemma pe_eff_trailing: "trailingPE i = Some (Fin p) \<Longrightarrow> p \<noteq> 0 \<Longrightarrow> pe_eff i = Some (Fin p)"
  by (simp add: pe_eff_def py_or_def truthy_opt_def isna_def)

lemma pe_eff_forward:
  "trailingPE i = None \<or> trailingPE i = Some (Fin 0) \<Longrightarrow> forwardPE i = Some (Fin p) \<Longrightarrow>
   p \<noteq> 0 \<Longrightarrow> pe_eff i = Some (Fin p)"
  by (auto simp: pe_eff_def py_or_def truthy_opt_def isna_def)

lemma pe_eff_eps:
  "trailingPE i = None \<or> trailingPE i = Some (Fin 0) \<Longrightarrow> forwardPE i = None \<Longrightarrow>
   trailingEps i = Some (Fin e) \<Longrightarrow> e \<noteq> 0 \<Longrightarrow> currentPrice i = Some (Fin pr) \<Longrightarrow> pr \<noteq> 0 \<Longrightarrow>
   pe_eff i = Some (Fin (pr / e))"
  by (auto simp: pe_eff_def py_or_def truthy_opt_def isna_def safe_div_val_def safe_div_def
      safe_div_try_def py_truediv_def)

lemma pe_eff_eps_regular:
  "trailingPE i = None \<or> trailingPE i = Some (Fin 0) \<Longrightarrow> forwardPE i = None \<Longrightarrow>
   trailingEps i = Some (Fin e) \<Longrightarrow> e \<noteq> 0 \<Longrightarrow>
   currentPrice i = None \<or> currentPrice i = Some (Fin 0) \<Longrightarrow>
   regularMarketPrice i = Some (Fin pr) \<Longrightarrow> pe_eff i = Some (Fin (pr / e))"
  by (auto simp: pe_eff_def py_or_def truthy_opt_def isna_def safe_div_val_def safe_div_def
      safe_div_try_def py_truediv_def)

lemma pe_eff_none:
  "trailingPE i = None \<or> trailingPE i = Some (Fin 0) \<Longrightarrow> forwardPE i = None \<Longrightarrow>
   trailingEps i = None \<or> trailingEps i = Some (Fin 0) \<Longrightarrow> pe_eff i = None"
  by (auto simp: pe_eff_def py_or_def truthy_opt_def isna_def)

lemma growth_proxy_estimate:
  "earningsGrowth i = Some (Fin x) \<Longrightarrow> 0 < x \<Longrightarrow> ticker_growth_proxy i income = Fin x"
  by (simp add: ticker_growth_proxy_def growth_of_def isna_def growth_proxy_def)

lemma growth_proxy_fallback:
  "isna (earningsGrowth i) \<Longrightarrow>
   ticker_growth_proxy i income = growth_proxy (Some (growth_rev income))"
  by (simp add: ticker_growth_proxy_def growth_of_def)

text \<open>
  C8.  \<open>PEG\<close> never raises.  It is defined only if an effective P/E and a positive
  growth are both present, and then it is the P/E divided by the growth times 100 when
  the growth is below 1 and by the growth itself otherwise; for a finite non-zero P/E and
  a finite positive growth it is defined.  (A P/E of exactly zero is false in Python and
  leaves \<open>PEG\<close> undefined.)  A ticker with effective P/E 20, growth proxy 0.10 and
  dividend yield 0.02 has PEG 2 and PEGY 20/12, by whichever route the P/E and the growth
  were obtained.  \<open>PEGY\<close> is undefined without a P/E or a growth, and otherwise the
  P/E over the growth in percentage points plus the dividend yield in percentage points.
  The effective P/E is the trailing P/E, else the forward P/E, else price over trailing
  EPS, else missing; the growth proxy is the positive analyst estimate, else the revenue
  growth.
\<close>

theorem PEG_rule:
  "(\<exists>q. PEG pe (growth_proxy gr) = Inr q)
   \<and> (\<forall>q. PEG pe (growth_proxy gr) = Inr q \<and> \<not> isnan q \<longrightarrow>
        (\<exists>p x. pe = Some p \<and> \<not> isnan p \<and> gr = Some x \<and> flt (Fin 0) x
           \<and> q = (if flt x (Fin 1) then fdiv p (fmul x (Fin 100)) else fdiv p x)))
   \<and> (\<forall>p x. pe = Some (Fin p) \<and> p \<noteq> 0 \<and> gr = Some (Fin x) \<and> 0 < x \<longrightarrow>
        PEG pe (growth_proxy gr) = Inr (Fin (if x < 1 then p / (x * 100) else p / x)))
   \<and> (pe_eff i = Some (Fin 20) \<and> ticker_growth_proxy i income = Fin 0.10
        \<and> dividendYield i = Some (Fin 0.02) \<longrightarrow>
        ticker_PEG i income = Inr (Fin 2) \<and> ticker_PEGY i income = Some (Fin (20 / 12)))
   \<and> ticker_PEG i income = PEG (pe_eff i) (ticker_growth_proxy i income)
   \<and> ticker_PEGY i income = PEGY (pe_eff i) (ticker_growth_proxy i income) (dividendYield i)
   \<and> (isna pe \<or> isnan g \<longrightarrow> PEGY pe g dy = None)
   \<and> (\<forall>p x d. pe = Some (Fin p) \<and> g = Fin x \<and> 0 < x \<and> dy = Some (Fin d) \<and> 0 \<le> d \<longrightarrow>
        PEGY pe g dy =
          Some (Fin (p / ((if x < 1 then x * 100 else x) + (if d < 1 then d * 100 else d)))))
   \<and> (\<forall>p x. pe = Some (Fin p) \<and> g = Fin x \<and> 0 < x \<and> dy = None \<longrightarrow>
        PEGY pe g dy = Some (Fin (p / (if x < 1 then x * 100 else x))))
   \<and> (\<forall>p. trailingPE i = Some (Fin p) \<and> p \<noteq> 0 \<longrightarrow> pe_eff i = Some (Fin p))
   \<and> (\<forall>p. (trailingPE i = None \<or> trailingPE i = Some (Fin 0)) \<and> forwardPE i = Some (Fin p)
        \<and> p \<noteq> 0 \<longrightarrow> pe_eff i = Some (Fin p))
   \<and> (\<forall>e pr. (trailingPE i = None \<or> trailingPE i = Some (Fin 0)) \<and> forwardPE i = None
        \<and> trailingEps i = Some (Fin e) \<and> e \<noteq> 0 \<and> currentPrice i = Some (Fin pr) \<and> pr \<noteq> 0
        \<longrightarrow> pe_eff i = Some (Fin (pr / e)))
   \<and> (\<forall>e pr. (trailingPE i = None \<or> trailingPE i = Some (Fin 0)) \<and> forwardPE i = None
        \<and> trailingEps i = Some (Fin e) \<and> e \<noteq> 0
        \<and> (currentPrice i = None \<or> currentPrice i = Some (Fin 0))
        \<and> regularMarketPrice i = Some (Fin pr) \<longrightarrow> pe_eff i = Some (Fin (pr / e)))
   \<and> ((trailingPE i = None \<or> trailingPE i = Some (Fin 0)) \<and> forwardPE i = None
        \<and> (trailingEps i = None \<or> trailingEps i = Some (Fin 0)) \<longrightarrow> pe_eff i = None)
   \<and> (\<forall>x. earningsGrowth i = Some (Fin x) \<and> 0 < x \<longrightarrow> ticker_growth_proxy i income = Fin x)
   \<and> (isna (earningsGrowth i) \<longrightarrow>
        ticker_growth_proxy i income = growth_proxy (Some (growth_rev income)))"
proof (intro conjI allI impI; (elim conjE)?)
  show "\<exists>q. PEG pe (growth_proxy gr) = Inr q" by (rule PEG_total)
next
  fix q assume "PEG pe (growth_proxy gr) = Inr q" "\<not> isnan q"
  then show "\<exists>p x. pe = Some p \<and> \<not> isnan p \<and> gr = Some x \<and> flt (Fin 0) x
           \<and> q = (if flt x (Fin 1) then fdiv p (fmul x (Fin 100)) else fdiv p x)"
    by (rule PEG_defined)
next
  fix p x assume "pe = Some (Fin p)" "p \<noteq> 0" "gr = Some (Fin x)" "0 < x"
  then show "PEG pe (growth_proxy gr) = Inr (Fin (if x < 1 then p / (x * 100) else p / x))"
    using PEG_finite [of p x] by simp
next
  assume a: "pe_eff i = Some (Fin 20)" "ticker_growth_proxy i income = Fin 0.10"
    "dividendYield i = Some (Fin 0.02)"
  show "ticker_PEG i income = Inr (Fin 2)" by (rule scenario(1) [OF a])
  show "ticker_PEGY i income = Some (Fin (20 / 12))" by (rule scenario(2) [OF a])
next
  show "ticker_PEG i income = PEG (pe_eff i) (ticker_growth_proxy i income)"
    by (simp add: ticker_PEG_def)
  show "ticker_PEGY i income = PEGY (pe_eff i) (ticker_growth_proxy i income) (dividendYield i)"
    by (simp add: ticker_PEGY_def)
next
  assume "isna pe \<or> isnan g" then show "PEGY pe g dy = None" by (rule PEGY_undefined)
next
  fix p x d assume "pe = Some (Fin p)" "g = Fin x" "0 < x" "dy = Some (Fin d)" "0 \<le> d"
  then show "PEGY pe g dy =
      Some (Fin (p / ((if x < 1 then x * 100 else x) + (if d < 1 then d * 100 else d))))"
    using PEGY_dividend [of x d p] by simp
next
  fix p x assume "pe = Some (Fin p)" "g = Fin x" "0 < x" "dy = None"
  then show "PEGY pe g dy = Some (Fin (p / (if x < 1 then x * 100 else x)))"
    using PEGY_no_dividend [of x p] by simp
next
  fix p assume "trailingPE i = Some (Fin p)" "p \<noteq> 0"
  then show "pe_eff i = Some (Fin p)" by (rule pe_eff_trailing)
next
  fix p assume "trailingPE i = None \<or> trailingPE i = Some (Fin 0)" "forwardPE i = Some (Fin p)"
    "p \<noteq> 0"
  then show "pe_eff i = Some (Fin p)" by (rule pe_eff_forward)
next
  fix e pr assume "trailingPE i = None \<or> trailingPE i = Some (Fin 0)" "forwardPE i = None"
    "trailingEps i = Some (Fin e)" "e \<noteq> 0" "currentPrice i = Some (Fin pr)" "pr \<noteq> 0"
  then show "pe_eff i = Some (Fin (pr / e))" by (rule pe_eff_eps)
next
  fix e pr assume "trailingPE i = None \<or> trailingPE i = Some (Fin 0)" "forwardPE i = None"
    "trailingEps i = Some (Fin e)" "e \<noteq> 0"
    "currentPrice i = None \<or> currentPrice i = Some (Fin 0)"
    "regularMarketPrice i = Some (Fin pr)"
  then show "pe_eff i = Some (Fin (pr / e))" by (rule pe_eff_eps_regular)
next
  assume "trailingPE i = None \<or> trailingPE i = Some (Fin 0)" "forwardPE i = None"
    "trailingEps i = None \<or> trailingEps i = Some (Fin 0)"
  then show "pe_eff i = None" by (rule pe_eff_none)
next
  fix x assume "earningsGrowth i = Some (Fin x)" "0 < x"
  then show "ticker_growth_proxy i income = Fin x" by (rule growth_proxy_estimate)
next
  assume "isna (earningsGrowth i)"
  then show "ticker_growth_proxy i income = growth_proxy (Some (growth_rev income))"
    by (rule growth_proxy_fallback)
qed


theorem PEG_rule_witness:
  "PEG (Some (Fin 20)) (growth_proxy (Some (Fin 0.10))) = Inr (Fin 2)
   \<and> PEG None (growth_proxy (Some (Fin 0.10))) = Inr NaN
   \<and> PEG (Some (Fin 20)) (growth_proxy (Some (Fin (- 0.10)))) = Inr NaN
   \<and> PEGY (Some (Fin 20)) (Fin 0.10) (Some (Fin 0.02)) = Some (Fin (20 / 12))
   \<and> PEGY (Some (Fin 30)) (Fin 15) None = Some (Fin 2)
   \<and> PEGY None (Fin 0.10) (Some (Fin 0.02)) = None
   \<and> ticker_PEG \<lparr>currentPrice = Some (Fin 50), regularMarketPrice = None,
        marketCap = Some (Fin 1000), trailingPE = Some (Fin 20), forwardPE = Some (Fin 18),
        dividendYield = Some (Fin 0.02), earningsGrowth = Some (Fin 0.10),
        trailingEps = Some (Fin 2.5)\<rparr> None = Inr (Fin 2)
   \<and> ticker_PEGY \<lparr>currentPrice = Some (Fin 50), regularMarketPrice = None,
        marketCap = Some (Fin 1000), trailingPE = Some (Fin 20), forwardPE = Some (Fin 18),
        dividendYield = Some (Fin 0.02), earningsGrowth = Some (Fin 0.10),
        trailingEps = Some (Fin 2.5)\<rparr> None = Some (Fin (20 / 12))
   \<and> ticker_PEG \<lparr>currentPrice = Some (Fin 50), regularMarketPrice = None,
        marketCap = Some (Fin 1000), trailingPE = None, forwardPE = Some (Fin 20),
        dividendYield = Some (Fin 0.02), earningsGrowth = None,
        trailingEps = Some (Fin 2.5)\<rparr> (Some [(''Total Revenue'', [Fin 110, Fin 100])])
        = Inr (Fin 2)
   \<and> ticker_PEGY \<lparr>currentPrice = Some (Fin 50), regularMarketPrice = None,
        marketCap = Some (Fin 1000), trailingPE = None, forwardPE = Some (Fin 20),
        dividendYield = Some (Fin 0.02), earningsGrowth = None,
        trailingEps = Some (Fin 2.5)\<rparr> (Some [(''Total Revenue'', [Fin 110, Fin 100])])
        = Some (Fin (20 / 12))
   \<and> pe_eff \<lparr>currentPrice = Some (Fin 50), regularMarketPrice = None,
        marketCap = None, trailingPE = None, forwardPE = None, dividendYield = None,
        earningsGrowth = None, trailingEps = Some (Fin 2.5)\<rparr> = Some (Fin 20)
   \<and> pe_eff \<lparr>currentPrice = None, regularMarketPrice = Some (Fin 50),
        marketCap = None, trailingPE = Some (Fin 0), forwardPE = None, dividendYield = None,
        earningsGrowth = None, trailingEps = Some (Fin 2.5)\<rparr> = Some (Fin 20)
   \<and> pe_eff \<lparr>currentPrice = Some (Fin 50), regularMarketPrice = None,
        marketCap = None, trailingPE = None, forwardPE = None, dividendYield = None,
        earningsGrowth = None, trailingEps = None\<rparr> = None"
proof -
  let ?a = "\<lparr>currentPrice = Some (Fin 50), regularMarketPrice = None,
        marketCap = Some (Fin 1000), trailingPE = Some (Fin 20), forwardPE = Some (Fin 18),
        dividendYield = Some (Fin 0.02), earningsGrowth = Some (Fin 0.10),
        trailingEps = Some (Fin 2.5)\<rparr>"
  let ?b = "\<lparr>currentPrice = Some (Fin 50), regularMarketPrice = None,
        marketCap = Some (Fin 1000), trailingPE = None, forwardPE = Some (Fin 20),
        dividendYield = Some (Fin 0.02), earningsGrowth = None,
        trailingEps = Some (Fin 2.5)\<rparr>"
  let ?c = "\<lparr>currentPrice = Some (Fin 50), regularMarketPrice = None,
        marketCap = None, trailingPE = None, forwardPE = None, dividendYield = None,
        earningsGrowth = None, trailingEps = Some (Fin 2.5)\<rparr>"
  let ?d = "\<lparr>currentPrice = None, regularMarketPrice = Some (Fin 50),
        marketCap = None, trailingPE = Some (Fin 0), forwardPE = None, dividendYield = None,
        earningsGrowth = None, trailingEps = Some (Fin 2.5)\<rparr>"
  let ?e = "\<lparr>currentPrice = Some (Fin 50), regularMarketPrice = None,
        marketCap = None, trailingPE = None, forwardPE = None, dividendYield = None,
        earningsGrowth = None, trailingEps = None\<rparr>"
  let ?inc = "Some [(''Total Revenue'', [Fin 110, Fin 100])]"
  note c1 = PEG_rule [THEN conjunct1, rule_format]
  note c2 = PEG_rule [THEN conjunct2, THEN conjunct1, rule_format]
  note c3 = PEG_rule [THEN conjunct2, THEN conjunct2, THEN conjunct1, rule_format]
  note c4 = PEG_rule [THEN conjunct2, THEN conjunct2, THEN conjunct2, THEN conjunct1, rule_format]
  note c7 = PEG_rule [THEN conjunct2, THEN conjunct2, THEN conjunct2, THEN conjunct2, THEN conjunct2, THEN conjunct2, THEN conjunct1, rule_format]
  note c8 = PEG_rule [THEN conjunct2, THEN conjunct2, THEN conjunct2, THEN conjunct2, THEN conjunct2, THEN conjunct2, THEN conjunct2, THEN conjunct1, rule_format]
  note c9 = PEG_rule [THEN conjunct2, THEN conjunct2, THEN conjunct2, THEN conjunct2, THEN conjunct2, THEN conjunct2, THEN conjunct2, THEN conjunct2, THEN conjunct1, rule_format]
  note c10 = PEG_rule [THEN conjunct2, THEN conjunct2, THEN conjunct2, THEN conjunct2, THEN conjunct2, THEN conjunct2, THEN conjunct2, THEN conjunct2, THEN conjunct2, THEN conjunct1, rule_format]
  note c11 = PEG_rule [THEN conjunct2, THEN conjunct2, THEN conjunct2, THEN conjunct2, THEN conjunct2, THEN conjunct2, THEN conjunct2, THEN conjunct2, THEN conjunct2, THEN conjunct2, THEN conjunct1, rule_format]
  note c12 = PEG_rule [THEN conjunct2, THEN conjunct2, THEN conjunct2, THEN conjunct2, THEN conjunct2, THEN conjunct2, THEN conjunct2, THEN conjunct2, THEN conjunct2, THEN conjunct2, THEN conjunct2, THEN conjunct1, rule_format]
  note c13 = PEG_rule [THEN conjunct2, THEN conjunct2, THEN conjunct2, THEN conjunct2, THEN conjunct2, THEN conjunct2, THEN conjunct2, THEN conjunct2, THEN conjunct2, THEN conjunct2, THEN conjunct2, THEN conjunct2, THEN conjunct1, rule_format]
  note c14 = PEG_rule [THEN conjunct2, THEN conjunct2, THEN conjunct2, THEN conjunct2, THEN conjunct2, THEN conjunct2, THEN conjunct2, THEN conjunct2, THEN conjunct2, THEN conjunct2, THEN conjunct2, THEN conjunct2, THEN conjunct2, THEN conjunct1, rule_format]
  note c15 = PEG_rule [THEN conjunct2, THEN conjunct2, THEN conjunct2, THEN conjunct2, THEN conjunct2, THEN conjunct2, THEN conjunct2, THEN conjunct2, THEN conjunct2, THEN conjunct2, THEN conjunct2, THEN conjunct2, THEN conjunct2, THEN conjunct2, THEN conjunct1, rule_format]
  note c16 = PEG_rule [THEN conjunct2, THEN conjunct2, THEN conjunct2, THEN conjunct2, THEN conjunct2, THEN conjunct2, THEN conjunct2, THEN conjunct2, THEN conjunct2, THEN conjunct2, THEN conjunct2, THEN conjunct2, THEN conjunct2, THEN conjunct2, THEN conjunct2, rule_format]
  have p1: "PEG (Some (Fin 20)) (growth_proxy (Some (Fin 0.10))) = Inr (Fin 2)"
    using c3 [where pe = "Some (Fin 20)" and p = 20 and gr = "Some (Fin 0.10)" and x = "0.10"]
    by simp
  obtain q where q: "PEG None (growth_proxy (Some (Fin 0.10))) = Inr q"
    using c1 [where pe = None and gr = "Some (Fin 0.10)"] by blast
  have "isnan q"
    using c2 [where pe = None and gr = "Some (Fin 0.10)" and q = q] q by auto
  then have p2: "PEG None (growth_proxy (Some (Fin 0.10))) = Inr NaN"
    using q by (cases q) auto
  obtain q' where q': "PEG (Some (Fin 20)) (growth_proxy (Some (Fin (- 0.10)))) = Inr q'"
    using c1 [where pe = "Some (Fin 20)" and gr = "Some (Fin (- 0.10))"] by blast
  have "isnan q'"
    using c2 [where pe = "Some (Fin 20)" and gr = "Some (Fin (- 0.10))" and q = q'] q'
    by auto
  then have p3: "PEG (Some (Fin 20)) (growth_proxy (Some (Fin (- 0.10)))) = Inr NaN"
    using q' by (cases q') auto
  have y1: "PEGY (Some (Fin 20)) (Fin 0.10) (Some (Fin 0.02)) = Some (Fin (20 / 12))"
    using c8 [where pe = "Some (Fin 20)" and g = "Fin 0.10" and dy = "Some (Fin 0.02)"
        and p = 20 and x = "0.10" and d = "0.02"]
    by simp
  have y2: "PEGY (Some (Fin 30)) (Fin 15) None = Some (Fin 2)"
    using c9 [where pe = "Some (Fin 30)" and g = "Fin 15" and dy = None and p = 30 and x = 15]
    by simp
  have y3: "PEGY None (Fin 0.10) (Some (Fin 0.02)) = None"
    using c7 [where pe = None and g = "Fin 0.10" and dy = "Some (Fin 0.02)"]
    by (simp add: isna_def)
  have ea: "pe_eff ?a = Some (Fin 20)"
    using c10 [where i = ?a and p = 20] by simp
  have ga: "ticker_growth_proxy ?a None = Fin 0.10"
    using c15 [where i = ?a and income = None and x = "0.10"] by simp
  have ta: "ticker_PEG ?a None = Inr (Fin 2) \<and> ticker_PEGY ?a None = Some (Fin (20 / 12))"
    using c4 [where i = ?a and income = None] ea ga by simp
  have gr: "growth_proxy (Some (growth_rev ?inc)) = Fin 0.10"
    by (simp add: growth_rev_def growth_rev_try_def frame_empty_def loc_row_def try_bind_def
        except_default_def dropna_def iloc_def cagr_def fsub_def growth_proxy_def Let_def)
  have eb: "pe_eff ?b = Some (Fin 20)"
    using c11 [where i = ?b and p = 20] by simp
  have gb: "ticker_growth_proxy ?b ?inc = Fin 0.10"
    using c16 [where i = ?b and income = ?inc] gr by (simp add: isna_def)
  have tb: "ticker_PEG ?b ?inc = Inr (Fin 2) \<and> ticker_PEGY ?b ?inc = Some (Fin (20 / 12))"
    using c4 [where i = ?b and income = ?inc] eb gb by simp
  have ec: "pe_eff ?c = Some (Fin 20)"
    using c12 [where i = ?c and e = "2.5" and pr = 50] by simp
  have ed: "pe_eff ?d = Some (Fin 20)"
    using c13 [where i = ?d and e = "2.5" and pr = 50] by simp
  have ee: "pe_eff ?e = None"
    using c14 [where i = ?e] by simp
  show ?thesis
    using p1 p2 p3 y1 y2 y3 ta tb ec ed ee by blast
qed

subsection \<open>Undefined values in the weighted sums\<close>

lemma fadd_nan: "isnan a \<or> isnan b \<Longrightarrow> fadd a b = NaN"
  by (cases a; cases b) auto

lemma fmul_nan: "isnan a \<or> isnan b \<Longrightarrow> fmul a b = NaN"
  by (cases a; cases b) auto

lemma fdiv_nan: "isnan a \<or> isnan b \<Longrightarrow> fdiv a b = NaN"
  by (cases a; cases b) auto

lemma fneg_nan: "isnan a \<Longrightarrow> fneg a = NaN"
  by (cases a) auto

lemma fsub_nan: "isnan a \<or> isnan b \<Longrightarrow> fsub a b = NaN"
  by (cases a; cases b) (auto simp: fsub_def)

lemma length_zscore: "length (zscore s) = length s"
  by (simp add: zscore_def)

lemma length_smul: "length (smul c s) = length s"
  by (simp add: smul_def)

lemma length_sneg: "length (sneg s) = length s"
  by (simp add: sneg_def)

lemma length_sinv: "length (sinv s) = length s"
  by (simp add: sinv_def)

lemma length_pos_clip: "length (pos_clip s) = length s"
  by (simp add: pos_clip_def)

lemmas series_lengths =
  length_zscore length_smul length_sneg length_sinv length_pos_clip

lemma nth_sadd: "i < length s \<Longrightarrow> i < length t \<Longrightarrow> sadd s t ! i = fadd (s ! i) (t ! i)"
  by (simp add: sadd_def)

lemma nth_smul: "i < length s \<Longrightarrow> smul c s ! i = fmul (Fin c) (s ! i)"
  by (simp add: smul_def)

lemma nth_sneg: "i < length s \<Longrightarrow> sneg s ! i = fneg (s ! i)"
  by (simp add: sneg_def)

lemma zscore_nan: "i < length s \<Longrightarrow> isnan (s ! i) \<Longrightarrow> zscore s ! i = NaN"
  by (simp add: zscore_def fsub_nan fdiv_nan)

lemma sinv_nan: "i < length s \<Longrightarrow> isnan (s ! i) \<Longrightarrow> isnan (sinv s ! i)"
  by (simp add: sinv_def fadd_nan fdiv_nan)

lemma term_nan: "i < length s \<Longrightarrow> isnan (s ! i) \<Longrightarrow> smul c (zscore s) ! i = NaN"
  by (simp add: nth_smul series_lengths zscore_nan fmul_nan)

lemma term_neg_nan: "i < length s \<Longrightarrow> isnan (s ! i) \<Longrightarrow> smul c (sneg (zscore s)) ! i = NaN"
  by (simp add: nth_smul nth_sneg series_lengths zscore_nan fmul_nan fneg_nan)

lemma term_inv_nan: "i < length s \<Longrightarrow> isnan (s ! i) \<Longrightarrow> smul c (zscore (sinv s)) ! i = NaN"
  by (simp add: nth_smul series_lengths zscore_nan sinv_nan fmul_nan)

lemma length_sadd_same: "length s = n \<Longrightarrow> length t = n \<Longrightarrow> length (sadd s t) = n"
  by (simp add: sadd_def)

lemma nan_sadd_left:
  "s ! i = NaN \<Longrightarrow> i < length s \<Longrightarrow> i < length t \<Longrightarrow> sadd s t ! i = NaN"
  by (simp add: nth_sadd)

lemma nan_sadd_right:
  "t ! i = NaN \<Longrightarrow> i < length s \<Longrightarrow> i < length t \<Longrightarrow> sadd s t ! i = NaN"
  by (simp add: nth_sadd fadd_nan)

lemmas term_lengths = length_zscore length_smul length_sneg length_sinv length_map

lemma buffett_nan:
  assumes i: "i < length df" and n: "list_ex isnan (buffett_inputs (df ! i))"
  shows "buffett_raw df ! i = NaN"
proof -
  let ?t1 = "smul 0.35 (zscore (map col_roic_est df))"
  let ?t2 = "smul 0.20 (zscore (map col_fcf_margin df))"
  let ?t3 = "smul 0.15 (zscore (map col_fcf_yield df))"
  let ?t4 = "smul 0.15 (zscore (map col_ebit_margin df))"
  let ?t5 = "smul 0.10 (sneg (zscore (map col_net_debt df)))"
  let ?t6 = "smul 0.05 (zscore (map col_interest_coverage df))"
  have l: "length ?t1 = length df" "length ?t2 = length df" "length ?t3 = length df"
    "length ?t4 = length df" "length ?t5 = length df" "length ?t6 = length df"
    by (simp_all add: term_lengths)
  have v: "fadd (fadd (fadd (fadd (fadd (?t1 ! i) (?t2 ! i)) (?t3 ! i)) (?t4 ! i)) (?t5 ! i)) (?t6 ! i)
      = buffett_raw df ! i"
    unfolding buffett_raw_def using i l by (simp add: nth_sadd length_sadd_same)
  from n consider "isnan (col_roic_est (df ! i))" | "isnan (col_fcf_margin (df ! i))"
    | "isnan (col_fcf_yield (df ! i))" | "isnan (col_ebit_margin (df ! i))"
    | "isnan (col_net_debt (df ! i))" | "isnan (col_interest_coverage (df ! i))"
    unfolding buffett_inputs_def by auto
  then have "?t1 ! i = NaN \<or> ?t2 ! i = NaN \<or> ?t3 ! i = NaN \<or> ?t4 ! i = NaN
      \<or> ?t5 ! i = NaN \<or> ?t6 ! i = NaN"
    using i by cases (simp_all add: term_nan term_neg_nan)
  then show ?thesis
    unfolding v [symmetric] by (elim disjE) (simp_all add: fadd_nan)
qed

lemma lynch_nan:
  assumes i: "i < length df" and n: "list_ex isnan (lynch_inputs (df ! i))"
  shows "lynch_raw df ! i = NaN"
proof -
  let ?t1 = "smul 0.35 (zscore (sinv (map col_PEG df)))"
  let ?t2 = "smul 0.25 (zscore (sinv (map col_PEGY df)))"
  let ?t3 = "smul 0.25 (zscore (map col_growth_proxy df))"
  let ?t4 = "smul 0.15 (sneg (zscore (map col_net_debt df)))"
  have l: "length ?t1 = length df" "length ?t2 = length df" "length ?t3 = length df"
    "length ?t4 = length df"
    by (simp_all add: term_lengths)
  have v: "fadd (fadd (fadd (?t1 ! i) (?t2 ! i)) (?t3 ! i)) (?t4 ! i) = lynch_raw df ! i"
    unfolding lynch_raw_def using i l by (simp add: nth_sadd length_sadd_same)
  from n consider "isnan (col_PEG (df ! i))" | "isnan (col_PEGY (df ! i))"
    | "isnan (col_growth_proxy (df ! i))" | "isnan (col_net_debt (df ! i))"
    unfolding lynch_inputs_def by auto
  then have "?t1 ! i = NaN \<or> ?t2 ! i = NaN \<or> ?t3 ! i = NaN \<or> ?t4 ! i = NaN"
    using i by cases (simp_all add: term_nan term_neg_nan term_inv_nan)
  then show ?thesis
    unfolding v [symmetric] by (elim disjE) (simp_all add: fadd_nan)
qed

lemma icahn_nan:
  assumes i: "i < length df" and n: "list_ex isnan (icahn_inputs (df ! i))"
  shows "icahn_raw df ! i = NaN"
proof -
  let ?t1 = "smul 0.35 (zscore (map col_cash_to_mcap df))"
  let ?t2 = "smul 0.35 (zscore (sinv (map col_p_to_fcf df)))"
  let ?t3 = "smul 0.20 (sneg (zscore (map col_shares_chg_3y df)))"
  let ?t4 = "smul 0.10 (sneg (zscore (map col_net_debt df)))"
  have l: "length ?t1 = length df" "length ?t2 = length df" "length ?t3 = length df"
    "length ?t4 = length df"
    by (simp_all add: term_lengths)
  have v: "fadd (fadd (fadd (?t1 ! i) (?t2 ! i)) (?t3 ! i)) (?t4 ! i) = icahn_raw df ! i"
    unfolding icahn_raw_def using i l by (simp add: nth_sadd length_sadd_same)
  from n consider "isnan (col_cash_to_mcap (df ! i))" | "isnan (col_p_to_fcf (df ! i))"
    | "isnan (col_shares_chg_3y (df ! i))" | "isnan (col_net_debt (df ! i))"
    unfolding icahn_inputs_def by auto
  then have "?t1 ! i = NaN \<or> ?t2 ! i = NaN \<or> ?t3 ! i = NaN \<or> ?t4 ! i = NaN"
    using i by cases (simp_all add: term_nan term_neg_nan term_inv_nan)
  then show ?thesis
    unfolding v [symmetric] by (elim disjE) (simp_all add: fadd_nan)
qed

lemma soros_nan:
  assumes i: "i < length df" and n: "list_ex isnan (soros_inputs (df ! i))"
  shows "soros_raw df ! i = NaN"
proof -
  let ?t1 = "smul 0.50 (zscore (sinv (map col_p_to_fcf df)))"
  let ?t2 = "smul 0.30 (zscore (map col_macro_sensitivity df))"
  let ?t3 = "smul 0.20 (zscore (map col_interest_coverage df))"
  have l: "length ?t1 = length df" "length ?t2 = length df" "length ?t3 = length df"
    by (simp_all add: term_lengths)
  have v: "fadd (fadd (?t1 ! i) (?t2 ! i)) (?t3 ! i) = soros_raw df ! i"
    unfolding soros_raw_def using i l by (simp add: nth_sadd length_sadd_same)
  from n consider "isnan (col_p_to_fcf (df ! i))" | "isnan (col_macro_sensitivity (df ! i))"
    | "isnan (col_interest_coverage (df ! i))"
    unfolding soros_inputs_def by auto
  then have "?t1 ! i = NaN \<or> ?t2 ! i = NaN \<or> ?t3 ! i = NaN"
    using i by cases (simp_all add: term_nan term_neg_nan term_inv_nan)
  then show ?thesis
    unfolding v [symmetric] by (elim disjE) (simp_all add: fadd_nan)
qed

lemma simons_nan:
  assumes i: "i < length df" and n: "list_ex isnan (simons_inputs (df ! i))"
  shows "simons_raw df ! i = NaN"
proof -
  let ?t1 = "smul 0.34 (zscore (map col_weekly_ac df))"
  let ?t2 = "smul 0.33 (zscore (map col_vol_clust df))"
  let ?t3 = "smul 0.33 (zscore (map col_ret_pred df))"
  have l: "length ?t1 = length df" "length ?t2 = length df" "length ?t3 = length df"
    by (simp_all add: term_lengths)
  have v: "fadd (fadd (?t1 ! i) (?t2 ! i)) (?t3 ! i) = simons_raw df ! i"
    unfolding simons_raw_def using i l by (simp add: nth_sadd length_sadd_same)
  from n consider "isnan (col_weekly_ac (df ! i))" | "isnan (col_vol_clust (df ! i))"
    | "isnan (col_ret_pred (df ! i))"
    unfolding simons_inputs_def by auto
  then have "?t1 ! i = NaN \<or> ?t2 ! i = NaN \<or> ?t3 ! i = NaN"
    using i by cases (simp_all add: term_nan term_neg_nan term_inv_nan)
  then show ?thesis
    unfolding v [symmetric] by (elim disjE) (simp_all add: fadd_nan)
qed

text \<open>
  C1, as the code has it.  In each of the five weighted sums an undefined component is not
  omitted: for every row, as soon as one of the metrics the sum reads is undefined in that
  row, the weighted sum of the row is undefined.
\<close>

theorem weighted_sum_undefined:
  "i < length df \<Longrightarrow>
   (list_ex isnan (buffett_inputs (df ! i)) \<longrightarrow> buffett_raw df ! i = NaN)
   \<and> (list_ex isnan (lynch_inputs (df ! i)) \<longrightarrow> lynch_raw df ! i = NaN)
   \<and> (list_ex isnan (icahn_inputs (df ! i)) \<longrightarrow> icahn_raw df ! i = NaN)
   \<and> (list_ex isnan (soros_inputs (df ! i)) \<longrightarrow> soros_raw df ! i = NaN)
   \<and> (list_ex isnan (simons_inputs (df ! i)) \<longrightarrow> simons_raw df ! i = NaN)"
  by (simp add: buffett_nan lynch_nan icahn_nan soros_nan simons_nan)

theorem weighted_sum_undefined_witness:
  "buffett_raw [(uniform_row ''AAA'' (Fin 1))\<lparr>col_net_debt := NaN, col_p_to_fcf := NaN,
       col_ret_pred := NaN\<rparr>, uniform_row ''BBB'' (Fin 1)] ! 0 = NaN
   \<and> lynch_raw [(uniform_row ''AAA'' (Fin 1))\<lparr>col_net_debt := NaN, col_p_to_fcf := NaN,
       col_ret_pred := NaN\<rparr>, uniform_row ''BBB'' (Fin 1)] ! 0 = NaN
   \<and> icahn_raw [(uniform_row ''AAA'' (Fin 1))\<lparr>col_net_debt := NaN, col_p_to_fcf := NaN,
       col_ret_pred := NaN\<rparr>, uniform_row ''BBB'' (Fin 1)] ! 0 = NaN
   \<and> soros_raw [(uniform_row ''AAA'' (Fin 1))\<lparr>col_net_debt := NaN, col_p_to_fcf := NaN,
       col_ret_pred := NaN\<rparr>, uniform_row ''BBB'' (Fin 1)] ! 0 = NaN
   \<and> simons_raw [(uniform_row ''AAA'' (Fin 1))\<lparr>col_net_debt := NaN, col_p_to_fcf := NaN,
       col_ret_pred := NaN\<rparr>, uniform_row ''BBB'' (Fin 1)] ! 0 = NaN"
  using weighted_sum_undefined [of 0 "[(uniform_row ''AAA'' (Fin 1))\<lparr>col_net_debt := NaN,
       col_p_to_fcf := NaN, col_ret_pred := NaN\<rparr>, uniform_row ''BBB'' (Fin 1)]"]
  by (simp add: buffett_inputs_def lynch_inputs_def icahn_inputs_def soros_inputs_def
      simons_inputs_def uniform_row_def)

lemma zscore_ones: "zscore [Fin 1, Fin 1] = [Fin 0, Fin 0]"
  by (simp add: zscore_def nanmean_def nanstd_def dropna_def fsub_def)

lemma zscore_nan_one: "zscore [NaN, Fin 1] = [NaN, Fin 0]"
  by (simp add: zscore_def nanmean_def nanstd_def dropna_def fsub_def)

text \<open>
  C1 as stated fails.  Two tickers, every metric 1, but the return predictability of the
  first undefined: two of the three components of its Simons sum are defined, and the sum
  is undefined all the same.
\<close>

theorem weighted_sum_counterexample:
  "simons_raw [(uniform_row ''AAA'' (Fin 1))\<lparr>col_ret_pred := NaN\<rparr>, uniform_row ''BBB'' (Fin 1)] ! 0 = NaN
   \<and> \<not> isnan (col_weekly_ac ((uniform_row ''AAA'' (Fin 1))\<lparr>col_ret_pred := NaN\<rparr>))
   \<and> \<not> isnan (col_vol_clust ((uniform_row ''AAA'' (Fin 1))\<lparr>col_ret_pred := NaN\<rparr>))"
  by (simp add: simons_raw_def uniform_row_def zscore_ones zscore_nan_one sadd_def smul_def)

subsection \<open>Scores lie between 0 and 100\<close>

lemma fle_refl: "\<not> isnan a \<Longrightarrow> fle a a"
  by (cases a) auto

lemma fle_trans: "fle a b \<Longrightarrow> fle b c \<Longrightarrow> fle a c"
  by (cases a; cases b; cases c) auto

lemma fle_total: "\<not> isnan a \<Longrightarrow> \<not> isnan b \<Longrightarrow> fle a b \<or> fle b a"
  by (cases a; cases b) auto

lemma foldl_fmin:
  "\<not> isnan y \<Longrightarrow> \<forall>x\<in>set ys. \<not> isnan x \<Longrightarrow>
   \<not> isnan (foldl fmin y ys) \<and> fle (foldl fmin y ys) y
   \<and> (\<forall>x\<in>set ys. fle (foldl fmin y ys) x)"
proof (induction ys arbitrary: y)
  case Nil
  then show ?case by (simp add: fle_refl)
next
  case (Cons z zs)
  have m: "\<not> isnan (fmin y z)" "fle (fmin y z) y" "fle (fmin y z) z"
    using Cons.prems fle_total [of y z] by (auto simp: fmin_def fle_refl)
  from Cons.IH [OF m(1)] Cons.prems(2)
  have ih: "\<not> isnan (foldl fmin (fmin y z) zs)" "fle (foldl fmin (fmin y z) zs) (fmin y z)"
    "\<forall>x\<in>set zs. fle (foldl fmin (fmin y z) zs) x" by auto
  show ?case
    using ih m by (auto intro: fle_trans)
qed

lemma foldl_fmax:
  "\<not> isnan y \<Longrightarrow> \<forall>x\<in>set ys. \<not> isnan x \<Longrightarrow>
   \<not> isnan (foldl fmax y ys) \<and> fle y (foldl fmax y ys)
   \<and> (\<forall>x\<in>set ys. fle x (foldl fmax y ys))"
proof (induction ys arbitrary: y)
  case Nil
  then show ?case by (simp add: fle_refl)
next
  case (Cons z zs)
  have m: "\<not> isnan (fmax y z)" "fle y (fmax y z)" "fle z (fmax y z)"
    using Cons.prems fle_total [of y z] by (auto simp: fmax_def fle_refl)
  from Cons.IH [OF m(1)] Cons.prems(2)
  have ih: "\<not> isnan (foldl fmax (fmax y z) zs)" "fle (fmax y z) (foldl fmax (fmax y z) zs)"
    "\<forall>x\<in>set zs. fle x (foldl fmax (fmax y z) zs)" by auto
  show ?case
    using ih m by (auto intro: fle_trans)
qed

lemma nanmin_le: "x \<in> set s \<Longrightarrow> \<not> isnan x \<Longrightarrow> fle (nanmin s) x"
proof -
  assume x: "x \<in> set s" "\<not> isnan x"
  then have mem: "x \<in> set (dropna s)" by (simp add: dropna_def)
  then obtain y ys where d: "dropna s = y # ys" by (cases "dropna s") auto
  have "\<forall>z\<in>set (dropna s). \<not> isnan z" by (simp add: dropna_def)
  then have nn: "\<not> isnan y" "\<forall>z\<in>set ys. \<not> isnan z"
    using d by simp_all
  from foldl_fmin [OF nn] mem d show ?thesis
    by (auto simp: nanmin_def)
qed

lemma nanmax_ge: "x \<in> set s \<Longrightarrow> \<not> isnan x \<Longrightarrow> fle x (nanmax s)"
proof -
  assume x: "x \<in> set s" "\<not> isnan x"
  then have mem: "x \<in> set (dropna s)" by (simp add: dropna_def)
  then obtain y ys where d: "dropna s = y # ys" by (cases "dropna s") auto
  have "\<forall>z\<in>set (dropna s). \<not> isnan z" by (simp add: dropna_def)
  then have nn: "\<not> isnan y" "\<forall>z\<in>set ys. \<not> isnan z"
    using d by simp_all
  from foldl_fmax [OF nn] mem d show ?thesis
    by (auto simp: nanmax_def)
qed

lemma rescale_real:
  fixes m v M :: real
  assumes "m \<le> v" "v \<le> M"
  shows "0 \<le> 100 * (v - m) / (M - m + 1 / 10 ^ 9)"
    and "100 * (v - m) / (M - m + 1 / 10 ^ 9) \<le> 100"
proof -
  have d: "0 < M - m + 1 / 10 ^ 9" using assms by simp
  show "0 \<le> 100 * (v - m) / (M - m + 1 / 10 ^ 9)"
    using assms d by simp
  have "100 * (v - m) \<le> 100 * (M - m + 1 / 10 ^ 9)" using assms by simp
  then show "100 * (v - m) / (M - m + 1 / 10 ^ 9) \<le> 100"
    using d by (simp add: pos_divide_le_eq)
qed

lemma nan_clip: "fdiv (fmul (Fin 100) (fsub NaN mn)) d = NaN"
  by (simp add: fsub_def)

lemma blend_range:
  "score_range a \<Longrightarrow> score_range b \<Longrightarrow>
   score_range (fadd (fmul a (Fin 0.9)) (fmul b (Fin 0.1)))"
  by (cases a; cases b) auto

lemma length_ip_blend:
  "length z = n \<Longrightarrow> length sc = n \<Longrightarrow> length (ip_blend z sc) = n"
  by (simp add: ip_blend_def length_pos_clip)

lemma nth_ip_blend:
  "i < length z \<Longrightarrow> length sc = length z \<Longrightarrow>
   ip_blend z sc ! i =
     (if isnan (z ! i) then sc ! i
      else fadd (fmul (sc ! i) (Fin 0.9)) (fmul (pos_clip z ! i) (Fin 0.1)))"
  by (simp add: ip_blend_def length_pos_clip)

lemma length_sadd_eq: "length s = length t \<Longrightarrow> length (sadd s t) = length t"
  by (simp add: sadd_def)

lemma length_raw:
  "length (buffett_raw df) = length df" "length (lynch_raw df) = length df"
  "length (icahn_raw df) = length df" "length (soros_raw df) = length df"
  "length (simons_raw df) = length df" "length (ip_z df) = length df"
  by (simp_all add: buffett_raw_def lynch_raw_def icahn_raw_def soros_raw_def simons_raw_def
      ip_z_def length_sadd_eq term_lengths)

lemma length_scores:
  "length (buffett_score df) = length df" "length (lynch_score df) = length df"
  "length (icahn_score df) = length df" "length (soros_score df) = length df"
  "length (simons_score df) = length df"
  by (simp_all add: buffett_score_def lynch_score_def icahn_score_def soros_score_def
      simons_score_def length_raw length_pos_clip length_ip_blend)

lemma length_meta_score: "length (meta_score df) = length df"
  by (simp add: meta_score_def length_sadd_eq length_smul length_scores)

lemma nth_meta_score:
  assumes "i < length df"
  shows "meta_score df ! i =
    fadd (fadd (fadd (fadd (fmul (Fin 0.25) (buffett_score df ! i))
      (fmul (Fin 0.20) (lynch_score df ! i))) (fmul (Fin 0.20) (icahn_score df ! i)))
      (fmul (Fin 0.15) (soros_score df ! i))) (fmul (Fin 0.20) (simons_score df ! i))"
  using assms
  by (simp add: meta_score_def nth_sadd nth_smul length_sadd_eq length_smul length_scores)

paragraph \<open>The magnitude of z-scores\<close>

lemma bounded_by_mono: "bounded_by A x \<Longrightarrow> A \<le> B \<Longrightarrow> bounded_by B x"
  by (cases x) auto

lemma bounded_by_fmul: "bounded_by B x \<Longrightarrow> bounded_by (\<bar>c\<bar> * B) (fmul (Fin c) x)"
  by (cases x) (auto simp: abs_mult mult_left_mono)

lemma bounded_by_fneg: "bounded_by B x \<Longrightarrow> bounded_by B (fneg x)"
  by (cases x) auto

lemma bounded_by_fadd: "bounded_by A x \<Longrightarrow> bounded_by B y \<Longrightarrow> bounded_by (A + B) (fadd x y)"
  by (cases x; cases y) auto

lemma foldl_fadd_Fin: "foldl fadd (Fin a) (map Fin vs) = Fin (a + sum_list vs)"
  by (induction vs arbitrary: a) (auto simp: add.assoc)

lemma foldl_fadd_NaN: "foldl fadd NaN xs = NaN"
  by (induction xs) auto

lemma foldl_fadd_has_NaN: "NaN \<in> set xs \<Longrightarrow> foldl fadd a xs = NaN"
proof (induction xs arbitrary: a)
  case Nil
  then show ?case by simp
next
  case (Cons x xs)
  show ?case
  proof (cases "x = NaN")
    case True
    then show ?thesis by (simp add: fadd_nan foldl_fadd_NaN)
  next
    case False
    then show ?thesis using Cons by simp
  qed
qed

lemma fadd_cases:
  "fadd a b = PInf \<Longrightarrow> a = PInf \<or> b = PInf"
  "fadd a b = NInf \<Longrightarrow> a = NInf \<or> b = NInf"
  "fadd a b = Fin r \<Longrightarrow> (\<exists>u v. a = Fin u \<and> b = Fin v)"
  by (cases a; cases b; auto)+

lemma foldl_fadd_result:
  "(foldl fadd a xs = PInf \<longrightarrow> PInf \<in> set (a # xs))
   \<and> (foldl fadd a xs = NInf \<longrightarrow> NInf \<in> set (a # xs))
   \<and> ((\<exists>r. foldl fadd a xs = Fin r) \<longrightarrow> (\<forall>y\<in>set (a # xs). \<exists>v. y = Fin v))"
proof (induction xs arbitrary: a)
  case Nil
  then show ?case by auto
next
  case (Cons x xs)
  note ih = Cons.IH [of "fadd a x"]
  show ?case
  proof (intro conjI impI)
    assume "foldl fadd a (x # xs) = PInf"
    then have "PInf \<in> set (fadd a x # xs)" using ih by simp
    then show "PInf \<in> set (a # x # xs)" using fadd_cases(1) [of a x] by auto
  next
    assume "foldl fadd a (x # xs) = NInf"
    then have "NInf \<in> set (fadd a x # xs)" using ih by simp
    then show "NInf \<in> set (a # x # xs)" using fadd_cases(2) [of a x] by auto
  next
    assume "\<exists>r. foldl fadd a (x # xs) = Fin r"
    then have f: "\<forall>y\<in>set (fadd a x # xs). \<exists>v. y = Fin v" using ih by simp
    then obtain r where "fadd a x = Fin r" by auto
    then have "\<exists>u v. a = Fin u \<and> x = Fin v" by (rule fadd_cases(3))
    then show "\<forall>y\<in>set (a # x # xs). \<exists>v. y = Fin v" using f by auto
  qed
qed

lemma all_Fin_map: "\<forall>y\<in>set d. \<exists>v. y = Fin v \<Longrightarrow> \<exists>vs. d = map Fin vs"
proof (induction d)
  case Nil
  then show ?case by simp
next
  case (Cons y d)
  then obtain v vs where "y = Fin v" "d = map Fin vs" by auto
  then have "y # d = map Fin (v # vs)" by simp
  then show ?case by (rule exI)
qed

text \<open>With an infinite entry the standard deviation, and with it every z-score, is undefined.\<close>

lemma nanstd_infinite:
  assumes "y \<in> set (dropna s)" "\<not> (\<exists>v. y = Fin v)"
  shows "nanstd s = NaN"
proof -
  let ?d = "dropna s"
  let ?S = "foldl fadd (Fin 0) ?d"
  let ?avg = "fdiv ?S (Fin (real (length ?d)))"
  let ?sqr = "map (\<lambda>x. fmul (fsub x ?avg) (fsub x ?avg)) ?d"
  have ne: "?d \<noteq> []" using assms(1) by auto
  then have len: "0 < real (length ?d)" by simp
  have "NaN \<in> set ?sqr"
  proof (cases ?S)
    case NaN
    then have "fmul (fsub y ?avg) (fsub y ?avg) = NaN"
      by (simp add: fsub_nan fmul_nan)
    then show ?thesis using assms(1) by (metis (no_types, lifting) image_eqI list.set_map)
  next
    case PInf
    then have "PInf \<in> set ?d" using foldl_fadd_result [of "Fin 0" ?d] by auto
    moreover have "fmul (fsub PInf ?avg) (fsub PInf ?avg) = NaN"
      using PInf len by (simp add: fsub_def)
    ultimately show ?thesis by (metis (no_types, lifting) image_eqI list.set_map)
  next
    case NInf
    then have "NInf \<in> set ?d" using foldl_fadd_result [of "Fin 0" ?d] by auto
    moreover have "fmul (fsub NInf ?avg) (fsub NInf ?avg) = NaN"
      using NInf len by (simp add: fsub_def)
    ultimately show ?thesis by (metis (no_types, lifting) image_eqI list.set_map)
  next
    case (Fin r)
    then have "\<forall>z\<in>set ?d. \<exists>v. z = Fin v"
      using foldl_fadd_result [of "Fin 0" ?d] by auto
    then show ?thesis using assms by blast
  qed
  then have "foldl fadd (Fin 0) ?sqr = NaN" by (rule foldl_fadd_has_NaN)
  then show ?thesis using ne by (simp add: nanstd_def Let_def)
qed

lemma term_le_sum_list:
  fixes f :: "real \<Rightarrow> real"
  assumes "\<And>u. 0 \<le> f u" "v \<in> set vs"
  shows "f v \<le> sum_list (map f vs)"
  using assms(2)
proof (induction vs)
  case Nil
  then show ?case by simp
next
  case (Cons u us)
  have "0 \<le> sum_list (map f us)" by (rule sum_list_nonneg) (auto simp: assms(1))
  then show ?case using Cons assms(1) [of u] by auto
qed

lemma deviation_bound:
  fixes vs :: "real list"
  assumes "v \<in> set vs"
  shows "\<bar>v - mu\<bar> \<le>
    sqrt (real (length vs)) * sqrt (sum_list (map (\<lambda>u. (u - mu) * (u - mu)) vs) / real (length vs))"
proof -
  let ?Q = "sum_list (map (\<lambda>u. (u - mu) * (u - mu)) vs)"
  have n: "0 < real (length vs)" using assms by (cases vs) auto
  have "(v - mu) * (v - mu) \<le> ?Q"
    by (rule term_le_sum_list [where f = "\<lambda>u. (u - mu) * (u - mu)"]) (simp_all add: assms)
  then have "sqrt ((v - mu) * (v - mu)) \<le> sqrt ?Q" by (rule real_sqrt_le_mono)
  then have "\<bar>v - mu\<bar> \<le> sqrt ?Q" unfolding real_sqrt_abs2 .
  also have "?Q = real (length vs) * (?Q / real (length vs))" using n by simp
  then have "sqrt ?Q = sqrt (real (length vs)) * sqrt (?Q / real (length vs))"
    by (metis real_sqrt_mult)
  finally show ?thesis .
qed

lemma zscore_bounded:
  assumes i: "i < length s"
  shows "bounded_by (sqrt (real (length s))) (zscore s ! i)"
proof (cases "isnan (s ! i)")
  case True
  then show ?thesis using i by (simp add: zscore_nan)
next
  case False
  let ?d = "dropna s"
  have mem: "s ! i \<in> set ?d" using i False by (simp add: dropna_def)
  show ?thesis
  proof (cases "\<forall>y\<in>set ?d. \<exists>v. y = Fin v")
    case inf: False
    then obtain y where "y \<in> set ?d" "\<not> (\<exists>v. y = Fin v)" by blast
    then have "nanstd s = NaN" by (rule nanstd_infinite)
    then have "zscore s ! i = NaN" using i by (simp add: zscore_def fdiv_nan)
    then show ?thesis by simp
  next
    case True
    then obtain vs where vs: "?d = map Fin vs" using all_Fin_map by blast
    obtain v where v: "s ! i = Fin v" "v \<in> set vs" using mem vs by auto
    let ?n = "real (length vs)"
    let ?mu = "sum_list vs / ?n"
    let ?Q = "sum_list (map (\<lambda>u. (u - ?mu) * (u - ?mu)) vs)"
    let ?sd = "sqrt (?Q / ?n)"
    have n: "0 < ?n" using v(2) by (cases vs) auto
    have ne: "?d \<noteq> []" using mem by auto
    have mean: "nanmean s = Fin ?mu"
      using n ne vs foldl_fadd_Fin [of 0 vs] by (simp add: nanmean_def Let_def)
    have avg: "fdiv (foldl fadd (Fin 0) ?d) (Fin (real (length ?d))) = Fin ?mu"
      using n vs foldl_fadd_Fin [of 0 vs] by simp
    have sq: "map (\<lambda>x. fmul (fsub x (Fin ?mu)) (fsub x (Fin ?mu))) ?d
        = map Fin (map (\<lambda>u. (u - ?mu) * (u - ?mu)) vs)"
      unfolding vs by (simp add: fsub_def)
    have len: "length ?d = length vs" using vs by simp
    have Q: "0 \<le> ?Q" by (rule sum_list_nonneg) auto
    then have Qn: "\<not> ?Q / ?n < 0" using n by (simp add: not_less)
    have "nanstd s = fsqrt (fdiv (foldl fadd (Fin 0)
        (map (\<lambda>x. fmul (fsub x (Fin ?mu)) (fsub x (Fin ?mu))) ?d)) (Fin (real (length ?d))))"
      using ne by (simp add: nanstd_def Let_def avg)
    also have "\<dots> = fsqrt (fdiv (Fin ?Q) (Fin ?n))"
      unfolding sq foldl_fadd_Fin len by simp
    also have "\<dots> = Fin ?sd" using n Qn by simp
    finally have std: "nanstd s = Fin ?sd" .
    have sd: "0 \<le> ?sd" using Q n by simp
    have eps: "?sd + 1 / 10 ^ 9 \<noteq> 0" using sd by (smt (verit) divide_pos_pos zero_less_power)
    have z: "zscore s ! i = Fin ((v - ?mu) / (?sd + 1 / 10 ^ 9))"
      using i v(1) mean std eps by (simp add: zscore_def fsub_def)
    have dev: "\<bar>v - ?mu\<bar> \<le> sqrt ?n * ?sd" by (rule deviation_bound [OF v(2)])
    have pos: "0 < ?sd + 1 / 10 ^ 9" using sd by (smt (verit) divide_pos_pos zero_less_power)
    have "sqrt ?n * ?sd \<le> sqrt ?n * (?sd + 1 / 10 ^ 9)"
      by (intro mult_left_mono) simp_all
    then have "\<bar>v - ?mu\<bar> \<le> sqrt ?n * (?sd + 1 / 10 ^ 9)" using dev by linarith
    then have "\<bar>v - ?mu\<bar> / (?sd + 1 / 10 ^ 9) \<le> sqrt ?n"
      using pos by (simp add: pos_divide_le_eq)
    then have b: "\<bar>(v - ?mu) / (?sd + 1 / 10 ^ 9)\<bar> \<le> sqrt ?n"
      using pos by (simp add: abs_divide)
    have "length vs \<le> length s"
      using vs by (metis dropna_def length_filter_le length_map)
    then have "sqrt ?n \<le> sqrt (real (length s))" by simp
    then have "\<bar>(v - ?mu) / (?sd + 1 / 10 ^ 9)\<bar> \<le> sqrt (real (length s))"
      using b by (rule order_trans [rotated])
    then show ?thesis unfolding z bounded_by.simps .
  qed
qed

lemma all_bounded_mono:
  "list_all (bounded_by A) s \<Longrightarrow> A \<le> B \<Longrightarrow> list_all (bounded_by B) s"
  by (auto simp: list_all_length intro: bounded_by_mono)

lemma all_bounded_zscore:
  "length s = n \<Longrightarrow> list_all (bounded_by (sqrt (real n))) (zscore s)"
  by (auto simp: list_all_length length_zscore intro: zscore_bounded)

lemma all_bounded_sneg: "list_all (bounded_by B) s \<Longrightarrow> list_all (bounded_by B) (sneg s)"
  by (simp add: list_all_length length_sneg nth_sneg bounded_by_fneg)

lemma all_bounded_smul:
  "list_all (bounded_by B) s \<Longrightarrow> list_all (bounded_by (\<bar>c\<bar> * B)) (smul c s)"
  by (simp add: list_all_length length_smul nth_smul bounded_by_fmul)

lemma all_bounded_sadd:
  "list_all (bounded_by A) s \<Longrightarrow> list_all (bounded_by B) t \<Longrightarrow>
   list_all (bounded_by (A + B)) (sadd s t)"
  by (simp add: list_all_length sadd_def bounded_by_fadd)

lemma zterm:
  "length s = n \<Longrightarrow> list_all (bounded_by (\<bar>c\<bar> * sqrt (real n))) (smul c (zscore s))"
  by (intro all_bounded_smul all_bounded_zscore)

lemma zterm_neg:
  "length s = n \<Longrightarrow> list_all (bounded_by (\<bar>c\<bar> * sqrt (real n))) (smul c (sneg (zscore s)))"
  by (intro all_bounded_smul all_bounded_sneg all_bounded_zscore)

text \<open>
  The absolute values of the weights of each weighted sum add up to 1, so the sum is bounded
  like a single z-score: by the square root of the number of rows.
\<close>

lemma buffett_raw_bounded:
  "list_all (bounded_by (sqrt (real (length df)))) (buffett_raw df)"
proof -
  let ?r = "sqrt (real (length df))"
  have "list_all (bounded_by (\<bar>0.35\<bar> * ?r + \<bar>0.20\<bar> * ?r + \<bar>0.15\<bar> * ?r + \<bar>0.15\<bar> * ?r
      + \<bar>0.10\<bar> * ?r + \<bar>0.05\<bar> * ?r)) (buffett_raw df)"
    unfolding buffett_raw_def
    by (intro all_bounded_sadd zterm zterm_neg) (simp_all add: length_sinv)
  then show ?thesis by (rule all_bounded_mono) simp
qed

lemma lynch_raw_bounded:
  "list_all (bounded_by (sqrt (real (length df)))) (lynch_raw df)"
proof -
  let ?r = "sqrt (real (length df))"
  have "list_all (bounded_by (\<bar>0.35\<bar> * ?r + \<bar>0.25\<bar> * ?r + \<bar>0.25\<bar> * ?r + \<bar>0.15\<bar> * ?r))
      (lynch_raw df)"
    unfolding lynch_raw_def
    by (intro all_bounded_sadd zterm zterm_neg) (simp_all add: length_sinv)
  then show ?thesis by (rule all_bounded_mono) simp
qed

lemma icahn_raw_bounded:
  "list_all (bounded_by (sqrt (real (length df)))) (icahn_raw df)"
proof -
  let ?r = "sqrt (real (length df))"
  have "list_all (bounded_by (\<bar>0.35\<bar> * ?r + \<bar>0.35\<bar> * ?r + \<bar>0.20\<bar> * ?r + \<bar>0.10\<bar> * ?r))
      (icahn_raw df)"
    unfolding icahn_raw_def
    by (intro all_bounded_sadd zterm zterm_neg) (simp_all add: length_sinv)
  then show ?thesis by (rule all_bounded_mono) simp
qed

lemma soros_raw_bounded:
  "list_all (bounded_by (sqrt (real (length df)))) (soros_raw df)"
proof -
  let ?r = "sqrt (real (length df))"
  have "list_all (bounded_by (\<bar>0.50\<bar> * ?r + \<bar>0.30\<bar> * ?r + \<bar>0.20\<bar> * ?r)) (soros_raw df)"
    unfolding soros_raw_def
    by (intro all_bounded_sadd zterm zterm_neg) (simp_all add: length_sinv)
  then show ?thesis by (rule all_bounded_mono) simp
qed

lemma simons_raw_bounded:
  "list_all (bounded_by (sqrt (real (length df)))) (simons_raw df)"
proof -
  let ?r = "sqrt (real (length df))"
  have "list_all (bounded_by (\<bar>0.34\<bar> * ?r + \<bar>0.33\<bar> * ?r + \<bar>0.33\<bar> * ?r)) (simons_raw df)"
    unfolding simons_raw_def
    by (intro all_bounded_sadd zterm zterm_neg) (simp_all add: length_sinv)
  then show ?thesis by (rule all_bounded_mono) simp
qed

lemma ip_z_bounded:
  "list_all (bounded_by (sqrt (real (length df)))) (ip_z df)"
proof -
  let ?r = "sqrt (real (length df))"
  have "list_all (bounded_by (\<bar>0.50\<bar> * ?r + \<bar>0.30\<bar> * ?r + \<bar>0.20\<bar> * ?r)) (ip_z df)"
    unfolding ip_z_def
    by (intro all_bounded_sadd zterm zterm_neg) (simp_all add: length_sinv)
  then show ?thesis by (rule all_bounded_mono) simp
qed

paragraph \<open>The margin below 100\<close>

lemma foldl_fmin_mem: "foldl fmin y ys \<in> set (y # ys)"
proof (induction ys arbitrary: y)
  case Nil
  then show ?case by simp
next
  case (Cons z zs)
  have "fmin y z = y \<or> fmin y z = z" by (simp add: fmin_def)
  then show ?case using Cons [of "fmin y z"] by auto
qed

lemma foldl_fmax_mem: "foldl fmax y ys \<in> set (y # ys)"
proof (induction ys arbitrary: y)
  case Nil
  then show ?case by simp
next
  case (Cons z zs)
  have "fmax y z = y \<or> fmax y z = z" by (simp add: fmax_def)
  then show ?case using Cons [of "fmax y z"] by auto
qed

lemma nanmin_mem: "dropna s \<noteq> [] \<Longrightarrow> nanmin s \<in> set (dropna s)"
  using foldl_fmin_mem by (cases "dropna s") (auto simp: nanmin_def)

lemma nanmax_mem: "dropna s \<noteq> [] \<Longrightarrow> nanmax s \<in> set (dropna s)"
  using foldl_fmax_mem by (cases "dropna s") (auto simp: nanmax_def)

lemma clip_margin_pos: "0 \<le> B \<Longrightarrow> 0 < clip_margin B"
  unfolding clip_margin_def by (intro divide_pos_pos add_nonneg_pos) simp_all

lemma rescale_margin:
  fixes m v M B :: real
  assumes "m \<le> v" "v \<le> M" "M - m \<le> 2 * B"
  shows "100 * (v - m) / (M - m + 1 / 10 ^ 9) \<le> 100 - clip_margin B"
proof -
  let ?e = "1 / 10 ^ 9 :: real"
  have e: "0 < ?e" by simp
  have d: "0 < M - m + ?e" using assms e by linarith
  have D: "0 < 2 * B + ?e" using assms e by linarith
  have "100 * (v - m) / (M - m + ?e) \<le> 100 * (M - m) / (M - m + ?e)"
    using assms d by (intro divide_right_mono) simp_all
  also have "\<dots> = 100 - 100 * ?e / (M - m + ?e)"
    using d by (simp add: field_simps)
  also have "\<dots> \<le> 100 - 100 * ?e / (2 * B + ?e)"
  proof -
    have "100 * ?e / (2 * B + ?e) \<le> 100 * ?e / (M - m + ?e)"
      using assms d by (intro divide_left_mono) simp_all
    then show ?thesis by linarith
  qed
  finally show ?thesis by (simp add: clip_margin_def)
qed

lemma pos_clip_margin:
  assumes s: "list_all (bounded_by B) s" and i: "i < length s"
  shows "score_below (clip_margin B) (pos_clip s ! i)"
proof (cases "s ! i")
  case NaN
  then show ?thesis using i by (simp add: pos_clip_def nan_clip)
next
  case PInf
  then show ?thesis using s i by (auto simp: list_all_length)
next
  case NInf
  then show ?thesis using s i by (auto simp: list_all_length)
next
  case (Fin v)
  have mem: "s ! i \<in> set s" using i by simp
  have nn: "\<not> isnan (s ! i)" using Fin by simp
  have "s ! i \<in> set (dropna s)" using mem nn by (simp add: dropna_def)
  then have ne: "dropna s \<noteq> []" by auto
  have fin: "\<exists>u. x = Fin u \<and> \<bar>u\<bar> \<le> B" if "x \<in> set (dropna s)" for x
  proof -
    have x: "x \<in> set s" "\<not> isnan x" using that by (simp_all add: dropna_def)
    have b: "bounded_by B x" using s x(1) by (simp add: list_all_iff)
    show ?thesis by (insert x(2) b, cases x) auto
  qed
  obtain m where m: "nanmin s = Fin m" "\<bar>m\<bar> \<le> B" using fin [OF nanmin_mem [OF ne]] by auto
  obtain M where M: "nanmax s = Fin M" "\<bar>M\<bar> \<le> B" using fin [OF nanmax_mem [OF ne]] by auto
  have le: "m \<le> v" "v \<le> M"
    using nanmin_le [OF mem nn] nanmax_ge [OF mem nn] m M Fin by simp_all
  have w: "M - m \<le> 2 * B" using m(2) M(2) by linarith
  have d: "M - m + 1 / 10 ^ 9 \<noteq> 0" using le by simp
  have "pos_clip s ! i = Fin (100 * (v - m) / (M - m + 1 / 10 ^ 9))"
    using i Fin m(1) M(1) d by (simp add: pos_clip_def fsub_def)
  then show ?thesis
    using rescale_real(1) [OF le] rescale_margin [OF le w] by simp
qed

lemma blend_below:
  "score_below m a \<Longrightarrow> score_below m b \<Longrightarrow>
   score_below m (fadd (fmul a (Fin 0.9)) (fmul b (Fin 0.1)))"
  by (cases a; cases b) auto

lemma ip_blend_below:
  assumes "i < length z" "length sc = length z" "score_below (clip_margin B) (sc ! i)"
    "list_all (bounded_by B) z"
  shows "score_below (clip_margin B) (ip_blend z sc ! i)"
  using assms by (simp add: nth_ip_blend blend_below pos_clip_margin)

lemma score_below_cases:
  assumes "score_below m x"
  obtains "x = NaN" | v where "x = Fin v" "0 \<le> v" "v \<le> 100 - m"
  using assms by (cases x) auto

lemma convex_below:
  assumes "score_below m b" "score_below m l" "score_below m c" "score_below m s"
    "score_below m q"
  shows "score_below m (fadd (fadd (fadd (fadd (fmul (Fin 0.25) b) (fmul (Fin 0.20) l))
      (fmul (Fin 0.20) c)) (fmul (Fin 0.15) s)) (fmul (Fin 0.20) q))"
proof (cases "isnan b \<or> isnan l \<or> isnan c \<or> isnan s \<or> isnan q")
  case True
  then show ?thesis
    by (elim disjE) (simp_all add: fadd_nan fmul_nan)
next
  case False
  then obtain vb vl vc vs vq where v: "b = Fin vb" "l = Fin vl" "c = Fin vc" "s = Fin vs"
      "q = Fin vq" and r: "0 \<le> vb" "vb \<le> 100 - m" "0 \<le> vl" "vl \<le> 100 - m" "0 \<le> vc"
      "vc \<le> 100 - m" "0 \<le> vs" "vs \<le> 100 - m" "0 \<le> vq" "vq \<le> 100 - m"
    using assms
    by (elim score_below_cases [of m b] score_below_cases [of m l] score_below_cases [of m c]
        score_below_cases [of m s] score_below_cases [of m q]) auto
  show ?thesis unfolding v using r by simp
qed

lemma score_below_range: "0 \<le> m \<Longrightarrow> score_below m x \<Longrightarrow> score_range x"
  by (cases x) auto

lemma sub_scores_below:
  assumes "i < length df"
  shows "score_below (clip_margin (sqrt (real (length df)))) (buffett_score df ! i)"
    "score_below (clip_margin (sqrt (real (length df)))) (lynch_score df ! i)"
    "score_below (clip_margin (sqrt (real (length df)))) (icahn_score df ! i)"
    "score_below (clip_margin (sqrt (real (length df)))) (soros_score df ! i)"
    "score_below (clip_margin (sqrt (real (length df)))) (simons_score df ! i)"
  using assms
  by (simp_all add: buffett_score_def lynch_score_def icahn_score_def soros_score_def
      simons_score_def ip_blend_below pos_clip_margin length_raw length_pos_clip
      buffett_raw_bounded lynch_raw_bounded icahn_raw_bounded soros_raw_bounded
      simons_raw_bounded ip_z_bounded)

lemma meta_score_below:
  assumes "i < length df"
  shows "score_below (clip_margin (sqrt (real (length df)))) (meta_score df ! i)"
  unfolding nth_meta_score [OF assms]
  by (intro convex_below sub_scores_below assms)

text \<open>
  C9.  Every sub-score and every meta-score of a row is undefined or lies in the closed
  interval from 0 to 100.  The columns that the script rescales are the five weighted sums
  and the IP sum; in a table of \<open>n\<close> rows each of their defined entries has absolute value
  at most \<open>sqrt n\<close>, so the rescaling sends it to a value between 0 and
  \<open>100 - clip_margin (sqrt n)\<close>, a positive distance below 100.  The 0.9/0.1 blend of two
  values between 0 and 100 stays there, and it keeps the margin; the weights of the
  meta-score sum to 1, the meta-score of a row is that weighted sum of its five sub-scores,
  and it keeps the margin too.
\<close>

theorem scores_in_range:
  "(\<forall>a b. score_range a \<and> score_range b \<longrightarrow>
        score_range (fadd (fmul a (Fin 0.9)) (fmul b (Fin 0.1))))
   \<and> (0.25 :: real) + 0.20 + 0.20 + 0.15 + 0.20 = 1
   \<and> length (meta_score df) = length df
   \<and> 0 < clip_margin (sqrt (real (length df)))
   \<and> (\<forall>i<length df.
        bounded_by (sqrt (real (length df))) (buffett_raw df ! i)
        \<and> bounded_by (sqrt (real (length df))) (lynch_raw df ! i)
        \<and> bounded_by (sqrt (real (length df))) (icahn_raw df ! i)
        \<and> bounded_by (sqrt (real (length df))) (soros_raw df ! i)
        \<and> bounded_by (sqrt (real (length df))) (simons_raw df ! i)
        \<and> bounded_by (sqrt (real (length df))) (ip_z df ! i)
        \<and> score_below (clip_margin (sqrt (real (length df)))) (pos_clip (buffett_raw df) ! i)
        \<and> score_below (clip_margin (sqrt (real (length df)))) (pos_clip (simons_raw df) ! i)
        \<and> score_below (clip_margin (sqrt (real (length df)))) (pos_clip (ip_z df) ! i)
        \<and> score_below (clip_margin (sqrt (real (length df)))) (buffett_score df ! i)
        \<and> score_below (clip_margin (sqrt (real (length df)))) (lynch_score df ! i)
        \<and> score_below (clip_margin (sqrt (real (length df)))) (icahn_score df ! i)
        \<and> score_below (clip_margin (sqrt (real (length df)))) (soros_score df ! i)
        \<and> score_below (clip_margin (sqrt (real (length df)))) (simons_score df ! i)
        \<and> score_range (buffett_score df ! i) \<and> score_range (lynch_score df ! i)
        \<and> score_range (icahn_score df ! i) \<and> score_range (soros_score df ! i)
        \<and> score_range (simons_score df ! i)
        \<and> meta_score df ! i =
            fadd (fadd (fadd (fadd (fmul (Fin 0.25) (buffett_score df ! i))
              (fmul (Fin 0.20) (lynch_score df ! i))) (fmul (Fin 0.20) (icahn_score df ! i)))
              (fmul (Fin 0.15) (soros_score df ! i))) (fmul (Fin 0.20) (simons_score df ! i))
        \<and> score_below (clip_margin (sqrt (real (length df)))) (meta_score df ! i)
        \<and> score_range (meta_score df ! i))"
proof (intro conjI allI impI)
  fix a b assume "score_range a \<and> score_range b"
  then show "score_range (fadd (fmul a (Fin 0.9)) (fmul b (Fin 0.1)))"
    by (simp add: blend_range)
next
  show "(0.25 :: real) + 0.20 + 0.20 + 0.15 + 0.20 = 1" by simp
next
  show "length (meta_score df) = length df" by (rule length_meta_score)
next
  show "0 < clip_margin (sqrt (real (length df)))" by (rule clip_margin_pos) simp
next
  fix i assume i: "i < length df"
  let ?r = "sqrt (real (length df))"
  have m: "0 \<le> clip_margin ?r" using clip_margin_pos [of ?r] by simp
  show "bounded_by ?r (buffett_raw df ! i)"
    using buffett_raw_bounded [of df] i by (simp add: list_all_length length_raw)
  show "bounded_by ?r (lynch_raw df ! i)"
    using lynch_raw_bounded [of df] i by (simp add: list_all_length length_raw)
  show "bounded_by ?r (icahn_raw df ! i)"
    using icahn_raw_bounded [of df] i by (simp add: list_all_length length_raw)
  show "bounded_by ?r (soros_raw df ! i)"
    using soros_raw_bounded [of df] i by (simp add: list_all_length length_raw)
  show "bounded_by ?r (simons_raw df ! i)"
    using simons_raw_bounded [of df] i by (simp add: list_all_length length_raw)
  show "bounded_by ?r (ip_z df ! i)"
    using ip_z_bounded [of df] i by (simp add: list_all_length length_raw)
  show "score_below (clip_margin ?r) (pos_clip (buffett_raw df) ! i)"
    by (rule pos_clip_margin [OF buffett_raw_bounded]) (simp add: length_raw i)
  show "score_below (clip_margin ?r) (pos_clip (simons_raw df) ! i)"
    by (rule pos_clip_margin [OF simons_raw_bounded]) (simp add: length_raw i)
  show "score_below (clip_margin ?r) (pos_clip (ip_z df) ! i)"
    by (rule pos_clip_margin [OF ip_z_bounded]) (simp add: length_raw i)
  show b: "score_below (clip_margin ?r) (buffett_score df ! i)"
    "score_below (clip_margin ?r) (lynch_score df ! i)"
    "score_below (clip_margin ?r) (icahn_score df ! i)"
    "score_below (clip_margin ?r) (soros_score df ! i)"
    "score_below (clip_margin ?r) (simons_score df ! i)"
    by (rule sub_scores_below [OF i])+
  show "score_range (buffett_score df ! i)" "score_range (lynch_score df ! i)"
    "score_range (icahn_score df ! i)" "score_range (soros_score df ! i)"
    "score_range (simons_score df ! i)"
    by (rule score_below_range [OF m b(1)] score_below_range [OF m b(2)]
        score_below_range [OF m b(3)] score_below_range [OF m b(4)]
        score_below_range [OF m b(5)])+
  show "meta_score df ! i =
    fadd (fadd (fadd (fadd (fmul (Fin 0.25) (buffett_score df ! i))
      (fmul (Fin 0.20) (lynch_score df ! i))) (fmul (Fin 0.20) (icahn_score df ! i)))
      (fmul (Fin 0.15) (soros_score df ! i))) (fmul (Fin 0.20) (simons_score df ! i))"
    by (rule nth_meta_score [OF i])
  show "score_below (clip_margin ?r) (meta_score df ! i)"
    by (rule meta_score_below [OF i])
  then show "score_range (meta_score df ! i)"
    by (rule score_below_range [OF m])
qed

lemma zscore_1_3:
  "zscore [Fin 1, Fin 3] = [Fin (- 1 / (1 + 1 / 10 ^ 9)), Fin (1 / (1 + 1 / 10 ^ 9))]"
  by (simp add: zscore_def nanmean_def nanstd_def dropna_def fsub_def)

lemma pos_clip_example:
  "pos_clip [Fin 1, Fin 3, NaN] = [Fin 0, Fin (200 / (2 + 1 / 10 ^ 9)), NaN]"
  by (simp add: pos_clip_def nanmin_def nanmax_def dropna_def fsub_def fmin_def fmax_def)

lemma simons_example:
  "simons_raw [uniform_row ''AAA'' (Fin 1), uniform_row ''BBB'' (Fin 3)]
     = [Fin (- 1 / (1 + 1 / 10 ^ 9)), Fin (1 / (1 + 1 / 10 ^ 9))]"
  unfolding simons_raw_def
  by (simp add: uniform_row_def zscore_1_3 sadd_def smul_def)

lemma ip_z_example:
  "ip_z [uniform_row ''AAA'' (Fin 1), uniform_row ''BBB'' (Fin 3)]
     = [Fin (- 1 / (1 + 1 / 10 ^ 9)), Fin (1 / (1 + 1 / 10 ^ 9))]"
  unfolding ip_z_def
  by (simp add: uniform_row_def zscore_1_3 sadd_def smul_def)

lemma simons_score_example:
  "simons_score [uniform_row ''AAA'' (Fin 1), uniform_row ''BBB'' (Fin 3)]
     = [Fin 0, Fin (200 / (2 + 1 / 10 ^ 9 + 1 / 10 ^ 18))]"
  unfolding simons_score_def simons_example ip_z_example
  by (simp add: ip_blend_def pos_clip_def nanmin_def nanmax_def dropna_def fsub_def fmin_def
      fmax_def)

theorem scores_in_range_witness:
  "score_range (fadd (fmul (Fin 100) (Fin 0.9)) (fmul (Fin 0) (Fin 0.1)))
   \<and> bounded_by (sqrt 2) (simons_raw [uniform_row ''AAA'' (Fin 1), uniform_row ''BBB'' (Fin 3)] ! 1)
   \<and> simons_raw [uniform_row ''AAA'' (Fin 1), uniform_row ''BBB'' (Fin 3)] ! 1
        = Fin (1 / (1 + 1 / 10 ^ 9))
   \<and> score_below (clip_margin (sqrt 2))
        (simons_score [uniform_row ''AAA'' (Fin 1), uniform_row ''BBB'' (Fin 3)] ! 1)
   \<and> score_range (simons_score [uniform_row ''AAA'' (Fin 1), uniform_row ''BBB'' (Fin 3)] ! 1)
   \<and> simons_score [uniform_row ''AAA'' (Fin 1), uniform_row ''BBB'' (Fin 3)] ! 1
        = Fin (200 / (2 + 1 / 10 ^ 9 + 1 / 10 ^ 18))
   \<and> score_below (clip_margin (sqrt 2))
        (meta_score [uniform_row ''AAA'' (Fin 1), uniform_row ''BBB'' (Fin 3)] ! 1)
   \<and> score_range (meta_score [uniform_row ''AAA'' (Fin 1), uniform_row ''BBB'' (Fin 3)] ! 1)
   \<and> length (meta_score [uniform_row ''AAA'' (Fin 1), uniform_row ''BBB'' (Fin 3)]) = 2
   \<and> 0 < clip_margin (sqrt 2)"
proof -
  let ?df = "[uniform_row ''AAA'' (Fin 1), uniform_row ''BBB'' (Fin 3)]"
  note t = scores_in_range [of ?df]
  have r: "sqrt (real (length ?df)) = sqrt 2" by simp
  have b: "score_range (fadd (fmul (Fin 100) (Fin 0.9)) (fmul (Fin 0) (Fin 0.1)))"
    using t [THEN conjunct1, rule_format, of "Fin 100" "Fin 0"] by simp
  have l: "length (meta_score ?df) = 2"
    using t [THEN conjunct2, THEN conjunct2, THEN conjunct1] by simp
  have p: "0 < clip_margin (sqrt 2)"
    using t [THEN conjunct2, THEN conjunct2, THEN conjunct2, THEN conjunct1] unfolding r .
  have h: "1 < length ?df" by simp
  note u = t [THEN conjunct2, THEN conjunct2, THEN conjunct2, THEN conjunct2, rule_format,
      OF h, unfolded r]
  have c: "bounded_by (sqrt 2) (simons_raw ?df ! 1)" using u by (elim conjE)
  have d: "score_below (clip_margin (sqrt 2)) (simons_score ?df ! 1)" using u by (elim conjE)
  have e: "score_range (simons_score ?df ! 1)" using u by (elim conjE)
  have f: "score_below (clip_margin (sqrt 2)) (meta_score ?df ! 1)" using u by (elim conjE)
  have g: "score_range (meta_score ?df ! 1)" using u by (elim conjE)
  have x: "simons_raw ?df ! 1 = Fin (1 / (1 + 1 / 10 ^ 9))" by (simp add: simons_example)
  have y: "simons_score ?df ! 1 = Fin (200 / (2 + 1 / 10 ^ 9 + 1 / 10 ^ 18))"
    by (simp add: simons_score_example)
  show ?thesis
    by (intro conjI b c x d e y f g l p)
qed

subsection \<open>The sorted output\<close>






















text \<open>When the run does not reach its output.\<close>

lemma run_aborts:
  "universe = [] \<Longrightarrow> run argsort universe = Inl KeyError"
  "td_balance_sheet t = Some fr \<Longrightarrow> run argsort (t # ts) = Inl AttributeError"
  by (simp_all add: run_def screen_results_def try_bind_def ticker_row_def cash_to_mcap_def
      loc_get_def)





subsection \<open>Growth, invested capital and free cash flow in general\<close>

text \<open>
  The start of the growth computation is always the second observation of the cleaned
  series: with \<open>n\<close> observations, \<open>iloc[-(n-1)]\<close> is index 1.
\<close>

theorem growth_rev_start_index:
  "map_of fr ''Total Revenue'' = Some r \<and> \<not> frame_empty fr \<and> 2 \<le> length (dropna (take 4 r))
   \<longrightarrow> growth_rev (Some fr) =
         cagr (Some (dropna (take 4 r) ! 1)) (Some (dropna (take 4 r) ! 0))
           (int (length (dropna (take 4 r))) - 1)"
proof (intro impI, elim conjE)
  assume a: "map_of fr ''Total Revenue'' = Some r" "\<not> frame_empty fr"
    "2 \<le> length (dropna (take 4 r))"
  let ?h = "dropna (take 4 r)"
  have i1: "iloc ?h (- 1 * (int (length ?h) - 1)) = Inr (?h ! 1)"
  proof -
    have "nat (int (length ?h) - 1) \<le> length ?h" using a(3) by simp
    moreover have "length ?h - nat (int (length ?h) - 1) = 1" using a(3) by simp
    moreover have "\<not> 0 \<le> - 1 * (int (length ?h) - 1)" using a(3) by simp
    ultimately show ?thesis by (simp add: iloc_def)
  qed
  have "0 < length ?h" using a(3) by linarith
  then have i0: "iloc ?h 0 = Inr (?h ! 0)" by (simp add: iloc_def)
  show "growth_rev (Some fr) =
      cagr (Some (?h ! 1)) (Some (?h ! 0)) (int (length ?h) - 1)"
    using a i0 i1
    by (simp add: growth_rev_def growth_rev_try_def loc_row_def try_bind_def
        except_default_def Let_def)
qed

theorem growth_rev_start_index_witness:
  "growth_rev (Some [(''Total Revenue'', [Fin 800, NaN, Fin 200, Fin 100])])
     = cagr (Some (Fin 200)) (Some (Fin 800)) 2
   \<and> cagr (Some (Fin 200)) (Some (Fin 800)) 2 = Fin 1"
  using growth_rev_start_index
    [of "[(''Total Revenue'', [Fin 800, NaN, Fin 200, Fin 100])]" "[Fin 800, NaN, Fin 200, Fin 100]"]
  by (simp add: frame_empty_def dropna_def cagr_def fsub_def powr_half_sqrt)

text \<open>
  Invested capital: the formula on six numbers; undefined when total assets or current
  liabilities are undefined; and undefined as well when one of the four subtracted items
  is \<open>NaN\<close>, since \<open>NaN or 0\<close> is \<open>NaN\<close>.
\<close>

theorem invested_cap_rule:
  "invested_cap (Fin ta) (Fin cl) (Fin c) (Fin s) (Fin g) (Fin i) =
     Fin ((ta - cl) - (c + s) - (g + i))
   \<and> (isnan ta' \<or> isnan cl' \<or> isnan c' \<or> isnan s' \<or> isnan g' \<or> isnan i'
        \<longrightarrow> invested_cap ta' cl' c' s' g' i' = NaN)"
proof -
  have n: "or0 x = NaN" if "isnan x" for x using that by (cases x) (auto simp: or0_def)
  have a: "invested_cap (Fin ta) (Fin cl) (Fin c) (Fin s) (Fin g) (Fin i) =
     Fin ((ta - cl) - (c + s) - (g + i))"
    by (simp add: invested_cap_def or0_def fsub_def Let_def)
  have b: "invested_cap ta' cl' c' s' g' i' = NaN"
    if "isnan ta' \<or> isnan cl' \<or> isnan c' \<or> isnan s' \<or> isnan g' \<or> isnan i'"
    using that
    by (elim disjE) (simp_all add: invested_cap_def Let_def n fadd_nan fsub_nan)
  show ?thesis using a b by simp
qed

theorem invested_cap_rule_witness:
  "invested_cap (Fin 100) (Fin 30) (Fin 10) (Fin 5) (Fin 20) (Fin 15) = Fin 20
   \<and> invested_cap (Fin 100) NaN (Fin 10) (Fin 5) (Fin 20) (Fin 15) = NaN
   \<and> invested_cap (Fin 100) (Fin 30) (Fin 10) (Fin 5) NaN (Fin 15) = NaN"
  using invested_cap_rule [of 100 30 10 5 20 15 "Fin 100" NaN "Fin 10" "Fin 5" "Fin 20" "Fin 15"]
    invested_cap_rule [of 100 30 10 5 20 15 "Fin 100" "Fin 30" "Fin 10" "Fin 5" NaN "Fin 15"]
  by simp

text \<open>
  Free cash flow on two operands: the difference of two numbers, and undefined when an
  operand is \<open>NaN\<close>.  With quarterly rows present, a \<open>NaN\<close> quarter counts as zero in
  the sums.
\<close>

theorem fcf_rule:
  "(fcf_operands qcf cf = (Fin a, Fin b) \<longrightarrow> fcf qcf cf = Fin (a - b))
   \<and> (isnan (fst (fcf_operands qcf cf)) \<or> isnan (snd (fcf_operands qcf cf))
        \<longrightarrow> fcf qcf cf = NaN)"
proof (intro conjI impI)
  assume "fcf_operands qcf cf = (Fin a, Fin b)"
  then show "fcf qcf cf = Fin (a - b)"
    by (simp add: fcf_def or0_def fsub_def)
next
  obtain ocf capex where p: "fcf_operands qcf cf = (ocf, capex)"
    by (cases "fcf_operands qcf cf")
  have n: "or0 x = NaN" if "isnan x" for x using that by (cases x) (auto simp: or0_def)
  assume "isnan (fst (fcf_operands qcf cf)) \<or> isnan (snd (fcf_operands qcf cf))"
  then have "isnan ocf \<or> isnan capex" using p by simp
  then have "fsub (or0 ocf) (or0 capex) = NaN"
    by (elim disjE) (simp_all add: n fsub_nan)
  then show "fcf qcf cf = NaN" using p by (simp add: fcf_def)
qed

theorem fcf_rule_witness:
  "fcf (Some [(''Total Cash From Operating Activities'', [Fin 100, NaN, Fin 120, Fin 90, Fin 70]),
        (''Capital Expenditures'', [Fin (- 30), Fin (- 20), NaN, Fin (- 10), Fin (- 40)])]) None
     = Fin 370
   \<and> fcf None None = NaN"
  using fcf_rule [of "Some [(''Total Cash From Operating Activities'',
        [Fin 100, NaN, Fin 120, Fin 90, Fin 70]),
        (''Capital Expenditures'', [Fin (- 30), Fin (- 20), NaN, Fin (- 10), Fin (- 40)])]" None
        310 "- 60"]
    fcf_rule [of None None]
  by (simp add: fcf_operands_def quarterly_try_def annual_try_def loc_row_def try_bind_def
      except_default_def series_sum_def dropna_def)

end
